theory Spec2Isabelle
  imports Complex_Main "HOL-Library.AList" "HOL-Library.Sublist"
begin

section \<open>Python values and exceptions\<close>

text \<open>
  The script of \<^verbatim>\<open>src/main.py\<close> passes around the values that \<^verbatim>\<open>json.loads\<close>
  produces: \<^verbatim>\<open>None\<close>, booleans, integers, floats, strings, lists and dictionaries.
  A dictionary is an association list in insertion order, as Python keeps it; its keys are
  distinct. Strings are ASCII character lists.

  A Python float is modelled by the rational number it denotes, with exact arithmetic:
  the rounding error of binary64, \<^verbatim>\<open>NaN\<close> and the infinities are outside this model.
  Of the finite range of binary64 the model keeps the one effect that changes the control
  flow: an integer too large for a float raises \<^verbatim>\<open>OverflowError\<close> when it is converted.
\<close>

datatype json =
    JNull
  | JBool bool
  | JInt int
  | JFloat rat
  | JStr string
  | JArr "json list"
  | JObj "(string \<times> json) list"

datatype py_error =
    JSONDecodeError
  | TypeError
  | ValueError
  | KeyError
  | AttributeError
  | UnboundLocalError
  | OverflowError

text \<open>What a tool returns: a plain message, or the text \<^verbatim>\<open>json.dumps(v)\<close> of a value \<open>v\<close>.\<close>

datatype tool_output = Message string | Dumps json

type_synonym 'a result = "py_error + 'a"

text \<open>
  A statement that may raise, followed by the rest of the code: the exception of the first
  ends the run, its value goes on to the rest.
\<close>

definition raising :: "'a result \<Rightarrow> ('a \<Rightarrow> 'b result) \<Rightarrow> 'b result" where
  "raising m rest = (case m of Inl e \<Rightarrow> Inl e | Inr v \<Rightarrow> rest v)"

subsection \<open>String operations\<close>

text \<open>\<^verbatim>\<open>text.startswith(prefix)\<close>\<close>

fun startswith :: "string \<Rightarrow> string \<Rightarrow> bool" where
  "startswith s [] = True"
| "startswith [] (p # ps) = False"
| "startswith (c # cs) (p # ps) = (c = p \<and> startswith cs ps)"

text \<open>\<^verbatim>\<open>text.endswith(suffix)\<close>\<close>

definition endswith :: "string \<Rightarrow> string \<Rightarrow> bool" where
  "endswith s p = startswith (rev s) (rev p)"

text \<open>\<^verbatim>\<open>sub in text\<close> on two strings\<close>

fun str_in :: "string \<Rightarrow> string \<Rightarrow> bool" where
  "str_in sub [] = (sub = [])"
| "str_in sub (c # cs) = (startswith (c # cs) sub \<or> str_in sub cs)"

text \<open>\<^verbatim>\<open>text.lower()\<close> on ASCII text: the 26 capital letters change, nothing else does.\<close>

definition lower_char :: "char \<Rightarrow> char" where
  "lower_char c =
     (case map_of (zip ''ABCDEFGHIJKLMNOPQRSTUVWXYZ'' ''abcdefghijklmnopqrstuvwxyz'') c of
        Some d \<Rightarrow> d
      | None \<Rightarrow> c)"

definition lower :: "string \<Rightarrow> string" where
  "lower s = map lower_char s"

section \<open>Permitting agent: the rule table and the jurisdiction classifier\<close>

definition JURISDICTION_RULES :: "(string \<times> json) list" where
  "JURISDICTION_RULES =
    [(''los_angeles'', JObj
       [(''jurisdiction_name'', JStr ''City of Los Angeles''),
        (''permit_type'', JStr ''Solar Installation Permit''),
        (''requirements'', JArr
           [JStr ''Site plan with solar array layout'',
            JStr ''Electrical single-line diagram'',
            JStr ''Structural calculations'',
            JStr ''Interconnection application'',
            JStr ''LADBS permit application'']),
        (''fees'', JInt 500),
        (''processing_time'', JStr ''4-6 weeks''),
        (''contact'', JStr ''ladbs.lacity.org'')]),
     (''san_francisco'', JObj
       [(''jurisdiction_name'', JStr ''City of San Francisco''),
        (''permit_type'', JStr ''Solar Photovoltaic System Permit''),
        (''requirements'', JArr
           [JStr ''Solar system plans and specifications'',
            JStr ''Electrical permit application'',
            JStr ''Building permit (if roof modifications)'',
            JStr ''Fire department clearance form'',
            JStr ''Utility interconnection agreement'']),
        (''fees'', JInt 750),
        (''processing_time'', JStr ''3-4 weeks''),
        (''contact'', JStr ''sfdbi.org'')]),
     (''california_default'', JObj
       [(''jurisdiction_name'', JStr ''California County (Generic)''),
        (''permit_type'', JStr ''Residential Solar Permit''),
        (''requirements'', JArr
           [JStr ''Solar system design plans'',
            JStr ''Electrical diagram'',
            JStr ''Building department application'',
            JStr ''Utility notification form'']),
        (''fees'', JInt 300),
        (''processing_time'', JStr ''2-4 weeks''),
        (''contact'', JStr ''Local building department'')])]"

text \<open>
  The \<^verbatim>\<open>if/elif/else\<close> of \<^verbatim>\<open>classify_jurisdiction_tool\<close> that picks the jurisdiction id.
\<close>

definition classify_jurisdiction :: "string \<Rightarrow> string" where
  "classify_jurisdiction address =
     (let address_lower = lower address in
      if str_in ''los angeles'' address_lower \<or> str_in ''la'' address_lower
        then ''los_angeles''
      else if str_in ''san francisco'' address_lower \<or> str_in ''sf'' address_lower
        then ''san_francisco''
      else ''california_default'')"

text \<open>
  \<^verbatim>\<open>classify_jurisdiction_tool\<close>: the subscript \<^verbatim>\<open>JURISDICTION_RULES[jurisdiction]\<close>
  raises \<^verbatim>\<open>KeyError\<close> on a missing key.
\<close>

definition classify_jurisdiction_tool :: "string \<Rightarrow> tool_output result" where
  "classify_jurisdiction_tool address =
     (let jurisdiction = classify_jurisdiction address in
      case map_of JURISDICTION_RULES jurisdiction of
        None \<Rightarrow> Inl KeyError
      | Some rules \<Rightarrow>
          Inr (Dumps (JObj
            [(''address'', JStr address),
             (''classified_jurisdiction'', JStr jurisdiction),
             (''jurisdiction_info'', rules)])))"

text \<open>\<^verbatim>\<open>extract_location_from_address\<close>\<close>

definition extract_location_from_address :: "string \<Rightarrow> string" where
  "extract_location_from_address address =
     (let address_lower = lower address in
      if str_in ''los angeles'' address_lower \<or> str_in ''la'' address_lower
        then ''Los Angeles California''
      else if str_in ''san francisco'' address_lower \<or> str_in ''sf'' address_lower
        then ''San Francisco California''
      else ''California'')"

section \<open>Dictionary, membership and number operations\<close>

text \<open>\<^verbatim>\<open>d.get(key, default)\<close> on a dictionary\<close>

definition dict_get :: "(string \<times> json) list \<Rightarrow> string \<Rightarrow> json \<Rightarrow> json" where
  "dict_get d k dflt = (case map_of d k of Some v \<Rightarrow> v | None \<Rightarrow> dflt)"

text \<open>
  \<^verbatim>\<open>x.get(key, default)\<close> on any value: only a dictionary has the method, every other
  value raises \<^verbatim>\<open>AttributeError\<close>.
\<close>

fun py_get :: "json \<Rightarrow> string \<Rightarrow> json \<Rightarrow> json result" where
  "py_get (JObj d) k dflt = Inr (dict_get d k dflt)"
| "py_get _ k dflt = Inl AttributeError"

text \<open>
  \<^verbatim>\<open>key in x\<close> for a string \<^verbatim>\<open>key\<close>: key membership in a dictionary, element
  membership in a list, substring test in a string, \<^verbatim>\<open>TypeError\<close> on the rest.
\<close>

fun py_in :: "string \<Rightarrow> json \<Rightarrow> bool result" where
  "py_in k (JObj d) = Inr (k \<in> fst ` set d)"
| "py_in k (JArr xs) = Inr (JStr k \<in> set xs)"
| "py_in k (JStr s) = Inr (str_in k s)"
| "py_in k _ = Inl TypeError"

text \<open>
  \<^verbatim>\<open>x[key]\<close> for a string \<^verbatim>\<open>key\<close>: \<^verbatim>\<open>KeyError\<close> on a dictionary without the key,
  \<^verbatim>\<open>TypeError\<close> on every value that is not a dictionary.
\<close>

fun py_subscript :: "json \<Rightarrow> string \<Rightarrow> json result" where
  "py_subscript (JObj d) k = (case map_of d k of Some v \<Rightarrow> Inr v | None \<Rightarrow> Inl KeyError)"
| "py_subscript _ k = Inl TypeError"

text \<open>The number a value stands for in arithmetic; \<^verbatim>\<open>True\<close> is 1 and \<^verbatim>\<open>False\<close> is 0.\<close>

fun num_of :: "json \<Rightarrow> rat option" where
  "num_of (JInt i) = Some (of_int i)"
| "num_of (JFloat q) = Some q"
| "num_of (JBool b) = Some (if b then 1 else 0)"
| "num_of _ = None"

text \<open>
  \<^verbatim>\<open>round(x, 1)\<close>: to the nearest multiple of one tenth, a tie going to the even one.
\<close>

definition round_half_even :: "rat \<Rightarrow> int" where
  "round_half_even q =
     (let f = \<lfloor>q\<rfloor>; d = q - of_int f in
      if d < 1 / 2 then f
      else if 1 / 2 < d then f + 1
      else if even f then f else f + 1)"

definition round1 :: "rat \<Rightarrow> rat" where
  "round1 q = of_int (round_half_even (q * 10)) / 10"

subsection \<open>\<^verbatim>\<open>int(text)\<close>\<close>

text \<open>
  \<^verbatim>\<open>int\<close> on a string: white space around is dropped, one sign may lead, then decimal
  digits follow, any two of them separated by at most one underscore. Anything else is a
  \<^verbatim>\<open>ValueError\<close>, here \<open>None\<close>. The limit of 4300 digits that interpreters from
  version 3.11 on put on the text is left out.
\<close>

definition is_space :: "char \<Rightarrow> bool" where
  "is_space c \<longleftrightarrow>
     c \<in> set [CHR '' '', CHR 0x09, CHR 0x0A, CHR 0x0B, CHR 0x0C, CHR 0x0D,
               CHR 0x1C, CHR 0x1D, CHR 0x1E, CHR 0x1F]"

text \<open>\<^verbatim>\<open>text.strip()\<close>\<close>

definition strip :: "string \<Rightarrow> string" where
  "strip s = rev (dropWhile is_space (rev (dropWhile is_space s)))"

text \<open>
  The white space that \<^verbatim>\<open>int\<close> drops around an ASCII text: the characters 9 to 13 and
  the space, not the separators 28 to 31 that \<^verbatim>\<open>strip\<close> drops too.
\<close>

definition is_int_space :: "char \<Rightarrow> bool" where
  "is_int_space c \<longleftrightarrow>
     c \<in> set [CHR '' '', CHR 0x09, CHR 0x0A, CHR 0x0B, CHR 0x0C, CHR 0x0D]"

definition int_strip :: "string \<Rightarrow> string" where
  "int_strip s = rev (dropWhile is_int_space (rev (dropWhile is_int_space s)))"

definition digit_val :: "char \<Rightarrow> nat option" where
  "digit_val c = map_of (zip ''0123456789'' [0, 1, 2, 3, 4, 5, 6, 7, 8, 9]) c"

fun digits_val :: "nat \<Rightarrow> string \<Rightarrow> nat option" where
  "digits_val acc [] = Some acc"
| "digits_val acc [c] =
     (case digit_val c of Some v \<Rightarrow> Some (acc * 10 + v) | None \<Rightarrow> None)"
| "digits_val acc (c # d # ds) =
     (if c = CHR ''_'' then
        (case digit_val d of Some v \<Rightarrow> digits_val (acc * 10 + v) ds | None \<Rightarrow> None)
      else
        (case digit_val c of Some v \<Rightarrow> digits_val (acc * 10 + v) (d # ds) | None \<Rightarrow> None))"

definition unsigned_int :: "string \<Rightarrow> nat option" where
  "unsigned_int s =
     (case s of
        [] \<Rightarrow> None
      | c # cs \<Rightarrow> (case digit_val c of Some v \<Rightarrow> digits_val v cs | None \<Rightarrow> None))"

definition py_int :: "string \<Rightarrow> int option" where
  "py_int text =
     (case int_strip text of
        [] \<Rightarrow> None
      | c # cs \<Rightarrow>
          if c = CHR ''+'' then map_option int (unsigned_int cs)
          else if c = CHR ''-'' then map_option (\<lambda>n. - int n) (unsigned_int cs)
          else map_option int (unsigned_int (c # cs)))"

text \<open>\<^verbatim>\<open>text.split('-')[0]\<close>: the text before the first hyphen, all of it when there is none.\<close>

definition before_hyphen :: "string \<Rightarrow> string" where
  "before_hyphen s = takeWhile (\<lambda>c. c \<noteq> CHR ''-'') s"

text \<open>
  \<^verbatim>\<open>x.split('-')[0]\<close> on any value: only a string has the method.
\<close>

fun py_split_first :: "json \<Rightarrow> string result" where
  "py_split_first (JStr s) = Inr (before_hyphen s)"
| "py_split_first _ = Inl AttributeError"

section \<open>Feasibility scorer\<close>

text \<open>
  \<^verbatim>\<open>json.loads\<close> is the standard library's parser; the scorer and the form generator take
  it as the parameter \<open>loads\<close>, so every statement below holds for any parser.
  \<^verbatim>\<open>if isinstance(data, str): data = json.loads(data)\<close>:
\<close>

definition loads_if_str :: "(string \<Rightarrow> json result) \<Rightarrow> json \<Rightarrow> json result" where
  "loads_if_str loads data = (case data of JStr s \<Rightarrow> loads s | _ \<Rightarrow> Inr data)"

text \<open>
  An integer becomes a float in \<^verbatim>\<open>int / int\<close> and in \<^verbatim>\<open>float - int\<close>. The largest
  float is \<open>2\<^sup>1\<^sup>0\<^sup>2\<^sup>4 - 2\<^sup>9\<^sup>7\<^sup>1\<close>; a number rounds to it below
  \<open>2\<^sup>1\<^sup>0\<^sup>2\<^sup>4 - 2\<^sup>9\<^sup>7\<^sup>0\<close>, and from there on the conversion raises
  \<^verbatim>\<open>OverflowError\<close>.
\<close>

definition float_limit :: rat where
  "float_limit = 2 ^ 1024 - 2 ^ 970"

definition too_large_for_float :: "rat \<Rightarrow> bool" where
  "too_large_for_float q \<longleftrightarrow> float_limit \<le> \<bar>q\<bar>"

text \<open>\<^verbatim>\<open>fees / 10\<close>: \<^verbatim>\<open>TypeError\<close> when \<^verbatim>\<open>fees\<close> is not a number.\<close>

fun div_by_10 :: "json \<Rightarrow> rat result" where
  "div_by_10 (JInt i) =
     (if too_large_for_float (of_int i / 10) then Inl OverflowError else Inr (of_int i / 10))"
| "div_by_10 (JFloat q) = Inr (q / 10)"
| "div_by_10 (JBool b) = Inr ((if b then 1 else 0) / 10)"
| "div_by_10 _ = Inl TypeError"

text \<open>The integer operand of \<^verbatim>\<open>float - int\<close>.\<close>

definition int_to_float :: "int \<Rightarrow> rat result" where
  "int_to_float n =
     (if too_large_for_float (of_int n) then Inl OverflowError else Inr (of_int n))"

text \<open>\<^verbatim>\<open>max(0, 100 - (fees / 10) - (processing_weeks * 5))\<close>\<close>

definition permit_formula :: "json \<Rightarrow> int \<Rightarrow> rat result" where
  "permit_formula fees processing_weeks =
     raising (div_by_10 fees) (\<lambda>tenth.
     raising (int_to_float (processing_weeks * 5)) (\<lambda>weeks5.
       Inr (max 0 (100 - tenth - weeks5))))"

text \<open>
  The body of the first \<^verbatim>\<open>try\<close> of \<^verbatim>\<open>calculate_feasibility_score\<close>. It returns the score or
  the exception raised, and the variables \<^verbatim>\<open>fees\<close> and \<^verbatim>\<open>processing_weeks\<close> as they stand
  when the block is left: \<open>None\<close> is a variable not yet assigned.
\<close>

definition permit_block ::
  "(string \<Rightarrow> json result) \<Rightarrow> json \<Rightarrow> rat result \<times> json option \<times> int option" where
  "permit_block loads permitting_data =
     (case loads_if_str loads permitting_data of
        Inl e \<Rightarrow> (Inl e, None, None)
      | Inr data \<Rightarrow>
          (case py_in ''permit_form'' data of
             Inl e \<Rightarrow> (Inl e, Some (JInt 500), Some 4)
           | Inr False \<Rightarrow> (permit_formula (JInt 500) 4, Some (JInt 500), Some 4)
           | Inr True \<Rightarrow>
               (case py_subscript data ''permit_form'' of
                  Inl e \<Rightarrow> (Inl e, Some (JInt 500), Some 4)
                | Inr permit_form \<Rightarrow>
                    (case py_get permit_form ''fees'' (JInt 500) of
                       Inl e \<Rightarrow> (Inl e, Some (JInt 500), Some 4)
                     | Inr fees \<Rightarrow>
                         (case py_get permit_form ''processing_time'' (JStr ''4 weeks'') of
                            Inl e \<Rightarrow> (Inl e, Some fees, Some 4)
                          | Inr processing_time \<Rightarrow>
                              (case py_in ''week'' processing_time of
                                 Inl e \<Rightarrow> (Inl e, Some fees, Some 4)
                               | Inr False \<Rightarrow> (permit_formula fees 4, Some fees, Some 4)
                               | Inr True \<Rightarrow>
                                   (case py_split_first processing_time of
                                      Inl e \<Rightarrow> (Inl e, Some fees, Some 4)
                                    | Inr first \<Rightarrow>
                                        (case py_int first of
                                           None \<Rightarrow> (Inl ValueError, Some fees, Some 4)
                                         | Some processing_weeks \<Rightarrow>
                                             (permit_formula fees processing_weeks,
                                              Some fees, Some processing_weeks)))))))))"

text \<open>The first \<^verbatim>\<open>try/except\<close>: any exception gives the flat score 60.\<close>

definition permit_score_of :: "(string \<Rightarrow> json result) \<Rightarrow> json \<Rightarrow> rat" where
  "permit_score_of loads permitting_data =
     (case fst (permit_block loads permitting_data) of Inl e \<Rightarrow> 60 | Inr s \<Rightarrow> s)"

text \<open>
  The body of the second \<^verbatim>\<open>try\<close>. \<^verbatim>\<open>70 - (total_articles * 2)\<close> raises \<^verbatim>\<open>TypeError\<close>
  when \<^verbatim>\<open>total_articles\<close> is not a number.
\<close>

definition research_block :: "(string \<Rightarrow> json result) \<Rightarrow> json \<Rightarrow> rat result" where
  "research_block loads research_data =
     (case loads_if_str loads research_data of
        Inl e \<Rightarrow> Inl e
      | Inr data \<Rightarrow>
          (case py_get data ''total_articles'' (JInt 0) of
             Inl e \<Rightarrow> Inl e
           | Inr total_articles \<Rightarrow>
               (case num_of total_articles of
                  None \<Rightarrow> Inl TypeError
                | Some n \<Rightarrow> Inr (max 20 (min 80 (70 - n * 2))))))"

definition research_score_of :: "(string \<Rightarrow> json result) \<Rightarrow> json \<Rightarrow> rat" where
  "research_score_of loads research_data =
     (case research_block loads research_data of Inl e \<Rightarrow> 60 | Inr s \<Rightarrow> s)"

text \<open>\<^verbatim>\<open>overall_score = (permit_score * 0.6) + (research_score * 0.4)\<close>, before any rounding.\<close>

definition weighted_sum :: "rat \<Rightarrow> rat \<Rightarrow> rat" where
  "weighted_sum p r = p * (6 / 10) + r * (4 / 10)"

text \<open>The \<^verbatim>\<open>if/elif/else\<close> on \<^verbatim>\<open>overall_score\<close>: the decision and the risk level.\<close>

definition decide :: "rat \<Rightarrow> string \<times> string" where
  "decide overall =
     (if 70 \<le> overall then (''GO'', ''Low'')
      else if 50 \<le> overall then (''CONDITIONAL GO'', ''Medium'')
      else (''NO-GO'', ''High''))"

record feasibility =
  overall_score :: rat
  decision :: string
  risk_level :: string
  permit_score :: rat
  research_score :: rat
  fees :: json
  processing_weeks :: int

text \<open>
  \<^verbatim>\<open>calculate_feasibility_score\<close>. Building the returned dictionary reads \<^verbatim>\<open>fees\<close> and
  \<^verbatim>\<open>processing_weeks\<close>: a variable never assigned raises \<^verbatim>\<open>UnboundLocalError\<close> there.
\<close>

definition calculate_feasibility_score ::
  "(string \<Rightarrow> json result) \<Rightarrow> json \<Rightarrow> json \<Rightarrow> feasibility result" where
  "calculate_feasibility_score loads permitting_data research_data =
     (let p = permit_score_of loads permitting_data;
          r = research_score_of loads research_data;
          overall = weighted_sum p r;
          (d, risk) = decide overall
      in case snd (permit_block loads permitting_data) of
           (Some f, Some w) \<Rightarrow>
             Inr \<lparr>overall_score = round1 overall, decision = d, risk_level = risk,
                  permit_score = round1 p, research_score = round1 r,
                  fees = f, processing_weeks = w\<rparr>
         | _ \<Rightarrow> Inl UnboundLocalError)"

text \<open>A parser that rejects every text, for the inputs that are already dictionaries.\<close>

definition no_json :: "string \<Rightarrow> json result" where
  "no_json s = Inl JSONDecodeError"


section \<open>Research agent: the news research tool\<close>

text \<open>Truth value of a value, as \<^verbatim>\<open>if x\<close>, \<^verbatim>\<open>not x\<close> and \<^verbatim>\<open>x and y\<close> read it.\<close>

fun truthy :: "json \<Rightarrow> bool" where
  "truthy JNull = False"
| "truthy (JBool b) = b"
| "truthy (JInt i) = (i \<noteq> 0)"
| "truthy (JFloat q) = (q \<noteq> 0)"
| "truthy (JStr s) = (s \<noteq> [])"
| "truthy (JArr xs) = (xs \<noteq> [])"
| "truthy (JObj d) = (d \<noteq> [])"

text \<open>
  Membership in a Python \<^verbatim>\<open>set\<close> goes by hash and equality: equal numbers are one key
  whatever their type (\<^verbatim>\<open>True == 1 == 1.0\<close>), and a list or a dictionary cannot be hashed
  (\<^verbatim>\<open>TypeError\<close>).
\<close>

datatype hkey = HStr string | HNum rat | HNone

fun hash_key :: "json \<Rightarrow> hkey result" where
  "hash_key (JStr s) = Inr (HStr s)"
| "hash_key (JInt i) = Inr (HNum (of_int i))"
| "hash_key (JFloat q) = Inr (HNum q)"
| "hash_key (JBool b) = Inr (HNum (if b then 1 else 0))"
| "hash_key JNull = Inr HNone"
| "hash_key (JArr xs) = Inl TypeError"
| "hash_key (JObj d) = Inl TypeError"

text \<open>\<^verbatim>\<open>article.get('title', '')\<close> and its key in \<^verbatim>\<open>seen_titles\<close>\<close>

definition article_title :: "json \<Rightarrow> json result" where
  "article_title article = py_get article ''title'' (JStr [])"

definition title_key :: "json \<Rightarrow> hkey result" where
  "title_key article =
     (case article_title article of Inl e \<Rightarrow> Inl e | Inr title \<Rightarrow> hash_key title)"

text \<open>
  The deduplication loop of \<^verbatim>\<open>site_impact_research_tool\<close>, on the state
  \<^verbatim>\<open>(seen_titles, unique_articles)\<close>. The test \<^verbatim>\<open>title not in seen_titles\<close> comes first
  and hashes the title.
\<close>

fun dedup_loop :: "json list \<Rightarrow> hkey set \<times> json list \<Rightarrow> (hkey set \<times> json list) result" where
  "dedup_loop [] st = Inr st"
| "dedup_loop (article # rest) (seen_titles, unique_articles) =
     (case article_title article of
        Inl e \<Rightarrow> Inl e
      | Inr title \<Rightarrow>
          (case hash_key title of
             Inl e \<Rightarrow> Inl e
           | Inr k \<Rightarrow>
               if k \<notin> seen_titles \<and> truthy title
               then dedup_loop rest (insert k seen_titles, unique_articles @ [article])
               else dedup_loop rest (seen_titles, unique_articles)))"

definition dedup_by_title :: "json list \<Rightarrow> json list result" where
  "dedup_by_title all_articles =
     (case dedup_loop all_articles ({}, []) of
        Inl e \<Rightarrow> Inl e
      | Inr (seen_titles, unique_articles) \<Rightarrow> Inr unique_articles)"

text \<open>
  \<^verbatim>\<open>all_articles.extend(articles)\<close>: a list gives its elements, a dictionary its keys, a
  string its characters; nothing else can be iterated.
\<close>

fun py_extend :: "json list \<Rightarrow> json \<Rightarrow> json list result" where
  "py_extend all_articles (JArr xs) = Inr (all_articles @ xs)"
| "py_extend all_articles (JObj d) = Inr (all_articles @ map (\<lambda>kv. JStr (fst kv)) d)"
| "py_extend all_articles (JStr s) = Inr (all_articles @ map (\<lambda>c. JStr [c]) s)"
| "py_extend all_articles _ = Inl TypeError"

definition search_terms_list :: "string list" where
  "search_terms_list =
     [''solar development moratorium'',
      ''solar project restriction'',
      ''renewable energy policy'',
      ''solar zoning restriction'',
      ''solar panel installation ban'',
      ''solar incentive program'',
      ''solar permit requirement'',
      ''utility interconnection solar'']"

text \<open>
  The loop over the search terms. The network call \<^verbatim>\<open>_perform_news_search\<close> is the
  parameter \<open>search\<close>: what the call returns for a search term.
\<close>

fun collect_articles :: "(string \<Rightarrow> json) \<Rightarrow> string list \<Rightarrow> json list \<Rightarrow> json list result" where
  "collect_articles search [] all_articles = Inr all_articles"
| "collect_articles search (term # terms) all_articles =
     (case py_extend all_articles (search term) of
        Inl e \<Rightarrow> Inl e
      | Inr extended \<Rightarrow> collect_articles search terms extended)"

text \<open>\<^verbatim>\<open>[f"{term} {location}" for term in search_terms_list]\<close> under \<^verbatim>\<open>if location\<close>\<close>

definition located_terms :: "string option \<Rightarrow> string list" where
  "located_terms location =
     (case location of
        None \<Rightarrow> search_terms_list
      | Some l \<Rightarrow>
          if l \<noteq> [] then map (\<lambda>term. term @ '' '' @ l) search_terms_list
          else search_terms_list)"

text \<open>\<^verbatim>\<open>location or 'General'\<close>\<close>

definition location_or_general :: "string option \<Rightarrow> string" where
  "location_or_general location =
     (case location of None \<Rightarrow> ''General'' | Some l \<Rightarrow> if l \<noteq> [] then l else ''General'')"

text \<open>
  \<^verbatim>\<open>site_impact_research_tool\<close>. \<open>env_token\<close> is \<^verbatim>\<open>os.environ.get('NEWS_API_TOKEN')\<close>;
  \<open>perform_news_search\<close> takes the search terms, the token and the host.
\<close>

definition site_impact_research_tool ::
  "(string \<Rightarrow> string \<Rightarrow> string \<Rightarrow> json) \<Rightarrow> string option \<Rightarrow> string option
     \<Rightarrow> tool_output result" where
  "site_impact_research_tool perform_news_search env_token location =
     (case env_token of
        None \<Rightarrow> Inr (Message ''Error: NEWS_API_TOKEN environment variable not set'')
      | Some api_token \<Rightarrow>
          if api_token = []
          then Inr (Message ''Error: NEWS_API_TOKEN environment variable not set'')
          else
            (case collect_articles
                    (\<lambda>term. perform_news_search term api_token ''api.thenewsapi.com'')
                    (located_terms location) [] of
               Inl e \<Rightarrow> Inl e
             | Inr all_articles \<Rightarrow>
                 (case dedup_by_title all_articles of
                    Inl e \<Rightarrow> Inl e
                  | Inr unique_articles \<Rightarrow>
                      Inr (Dumps (JObj
                        [(''total_articles'', JInt (int (length unique_articles))),
                         (''articles'', JArr (take 10 unique_articles)),
                         (''search_location'', JStr (location_or_general location))])))))"

section \<open>Permitting agent: the permit form generator\<close>

definition PERMIT_TEMPLATE :: "(string \<times> json) list" where
  "PERMIT_TEMPLATE =
     [(''applicant_name'', JStr []),
      (''property_address'', JStr []),
      (''jurisdiction'', JStr []),
      (''permit_type'', JStr []),
      (''system_size_kw'', JStr []),
      (''panel_count'', JStr []),
      (''inverter_type'', JStr []),
      (''installation_company'', JStr []),
      (''contractor_license'', JStr []),
      (''estimated_cost'', JStr []),
      (''requirements_checklist'', JArr []),
      (''fees'', JInt 0),
      (''processing_time'', JStr []),
      (''submission_date'', JStr []),
      (''status'', JStr ''Draft'')]"

text \<open>
  The first half of \<^verbatim>\<open>_extract_json_from_text\<close>: strip, then take a surrounding code fence
  away. The slice \<^verbatim>\<open>text[a:-3]\<close> keeps the characters from index \<open>a\<close> up to the last three.
\<close>

definition strip_fence :: "string \<Rightarrow> string" where
  "strip_fence raw =
     (let text = strip raw in
      if startswith text ''```json'' \<and> endswith text ''```''
        then strip (drop (length ''```json'') (take (length text - length ''```'') text))
      else if startswith text ''```'' \<and> endswith text ''```''
        then strip (drop (length ''```'') (take (length text - length ''```'') text))
      else text)"

text \<open>
  \<^verbatim>\<open>_extract_json_from_text\<close>: only \<^verbatim>\<open>json.JSONDecodeError\<close> is caught, and gives the
  empty dictionary.
\<close>

definition extract_json_from_text :: "(string \<Rightarrow> json result) \<Rightarrow> string \<Rightarrow> json result" where
  "extract_json_from_text loads raw =
     (case loads (strip_fence raw) of
        Inr v \<Rightarrow> Inr v
      | Inl e \<Rightarrow> if e = JSONDecodeError then Inr (JObj []) else Inl e)"

definition invalid_jurisdiction_message :: string where
  "invalid_jurisdiction_message =
     ''Error: Invalid or unparseable jurisdiction data provided to generate_permit_form_tool.''"

text \<open>
  The seven assignments to \<^verbatim>\<open>permit_form\<close> after \<^verbatim>\<open>PERMIT_TEMPLATE.copy()\<close>. An assignment
  to a key keeps the key's place in the dictionary, or appends a new key.
\<close>

definition fill_permit_form :: "string \<Rightarrow> json \<Rightarrow> (string \<times> json) list result" where
  "fill_permit_form address rules =
     raising (py_subscript rules ''jurisdiction_name'') (\<lambda>jurisdiction_name.
     raising (py_subscript rules ''permit_type'') (\<lambda>permit_type.
     raising (py_subscript rules ''requirements'') (\<lambda>requirements.
     raising (py_subscript rules ''fees'') (\<lambda>rule_fees.
     raising (py_subscript rules ''processing_time'') (\<lambda>processing_time.
       Inr (AList.update ''submission_date'' (JStr ''2024-07-18'')
           (AList.update ''processing_time'' processing_time
           (AList.update ''fees'' rule_fees
           (AList.update ''requirements_checklist'' requirements
           (AList.update ''permit_type'' permit_type
           (AList.update ''jurisdiction'' jurisdiction_name
           (AList.update ''property_address'' (JStr address) PERMIT_TEMPLATE))))))))))))"

text \<open>
  \<^verbatim>\<open>permit_form.update({k: v for k, v in details.items() if k in permit_form})\<close>: only a
  dictionary has \<^verbatim>\<open>items\<close>.
\<close>

definition merge_details :: "(string \<times> json) list \<Rightarrow> json \<Rightarrow> (string \<times> json) list result" where
  "merge_details permit_form details =
     (case details of
        JObj items \<Rightarrow>
          Inr (fold (\<lambda>kv form. AList.update (fst kv) (snd kv) form)
                 (filter (\<lambda>kv. fst kv \<in> fst ` set permit_form) items) permit_form)
      | _ \<Rightarrow> Inl AttributeError)"

text \<open>
  \<^verbatim>\<open>generate_permit_form_tool\<close>. \<open>fmt\<close> is the text an f-string puts for a value
  (Python's \<^verbatim>\<open>str\<close>), a parameter like \<open>loads\<close>.
\<close>

definition generate_permit_form_tool ::
  "(string \<Rightarrow> json result) \<Rightarrow> (json \<Rightarrow> string) \<Rightarrow> string \<Rightarrow> string \<Rightarrow> string
     \<Rightarrow> tool_output result" where
  "generate_permit_form_tool loads fmt address jurisdiction_data system_details =
     raising (extract_json_from_text loads jurisdiction_data) (\<lambda>jurisdiction_info.
     if \<not> truthy jurisdiction_info then Inr (Message invalid_jurisdiction_message)
     else
     raising (py_in ''jurisdiction_info'' jurisdiction_info) (\<lambda>present.
     if \<not> present then Inr (Message invalid_jurisdiction_message)
     else
     raising (py_subscript jurisdiction_info ''jurisdiction_info'') (\<lambda>rules.
     raising (fill_permit_form address rules) (\<lambda>filled.
     raising (if system_details \<noteq> []
              then raising (extract_json_from_text loads system_details) (merge_details filled)
              else Inr filled) (\<lambda>permit_form.
     raising (py_subscript rules ''contact'') (\<lambda>contact.
     raising (py_subscript rules ''fees'') (\<lambda>rule_fees.
     raising (py_subscript rules ''processing_time'') (\<lambda>processing_time.
       Inr (Dumps (JObj
         [(''permit_form'', JObj permit_form),
          (''jurisdiction_contact'', contact),
          (''next_steps'', JArr
             [JStr ''Complete all required documents'',
              JStr (''Pay permit fee of $'' @ fmt rule_fees),
              JStr ''Submit application to jurisdiction'',
              JStr (''Wait '' @ fmt processing_time @ '' for approval'')])]))))))))))"

section \<open>Auxiliary notions for the proofs\<close>

text \<open>The title of an article is there and true: the second half of the loop's test.\<close>

definition truthy_title :: "json \<Rightarrow> bool" where
  "truthy_title article =
     (case article_title article of Inl e \<Rightarrow> False | Inr title \<Rightarrow> truthy title)"

text \<open>
  The articles that a run of the loop appends to \<^verbatim>\<open>unique_articles\<close> when it starts with
  the titles \<open>seen\<close>, as a function of the input alone.
\<close>

fun appended :: "hkey set \<Rightarrow> json list \<Rightarrow> json list" where
  "appended seen [] = []"
| "appended seen (article # rest) =
     (case title_key article of
        Inl e \<Rightarrow> []
      | Inr k \<Rightarrow>
          if k \<notin> seen \<and> truthy_title article
          then article # appended (insert k seen) rest
          else appended seen rest)"

definition key_set :: "json list \<Rightarrow> hkey set" where
  "key_set ys = {k. \<exists>u \<in> set ys. title_key u = Inr k}"

text \<open>
  An answer of the news service, for running the research tool: five articles for each
  search phrase, two of them with titles made from the phrase, one with a title common to all
  phrases, one with an empty title and one with none.
\<close>

definition example_search :: "string \<Rightarrow> string \<Rightarrow> string \<Rightarrow> json" where
  "example_search search_terms api_token base_url =
     JArr [JObj [(''title'', JStr search_terms)],
           JObj [(''title'', JStr ''Solar news''), (''source'', JStr base_url)],
           JObj [(''title'', JStr [])],
           JObj [(''title'', JStr (search_terms @ '' again''))],
           JObj [(''source'', JStr base_url)]]"

text \<open>
  A parser and a formatter for running the form generator: the parser knows three JSON texts
  and rejects every other text, the formatter gives a string as it is and writes the
  integer 100.
\<close>

definition example_jurisdiction_text :: string where
  \<open>example_jurisdiction_text =
     ''{"jurisdiction_info": {"jurisdiction_name": "Town", "permit_type": "Solar", '' @
     ''"requirements": ["Plan"], "fees": 100, "processing_time": "1-2 weeks", '' @
     ''"contact": "town.example"}}''\<close>

definition example_details_text :: string where
  \<open>example_details_text = ''{"system_size_kw": "7kW", "panel_count": "24", "color": "blue"}''\<close>

definition example_other_text :: string where
  \<open>example_other_text = ''{"address": "1 Main St"}''\<close>

definition example_loads :: "string \<Rightarrow> json result" where
  "example_loads text =
     (if text = example_jurisdiction_text then
        Inr (JObj [(''jurisdiction_info'', JObj
          [(''jurisdiction_name'', JStr ''Town''),
           (''permit_type'', JStr ''Solar''),
           (''requirements'', JArr [JStr ''Plan'']),
           (''fees'', JInt 100),
           (''processing_time'', JStr ''1-2 weeks''),
           (''contact'', JStr ''town.example'')])])
      else if text = example_details_text then
        Inr (JObj [(''system_size_kw'', JStr ''7kW''), (''panel_count'', JStr ''24''),
                   (''color'', JStr ''blue'')])
      else if text = example_other_text then
        Inr (JObj [(''address'', JStr ''1 Main St'')])
      else Inl JSONDecodeError)"

definition example_fmt :: "json \<Rightarrow> string" where
  "example_fmt v = (case v of JStr s \<Rightarrow> s | JInt i \<Rightarrow> (if i = 100 then ''100'' else ''?'') | _ \<Rightarrow> ''?'')"

section \<open>Properties of the string operations\<close>

lemma startswith_iff: "startswith s p \<longleftrightarrow> (\<exists>ss. s = p @ ss)"
  by (induction s p rule: startswith.induct) auto

lemma str_in_iff: "str_in sub s \<longleftrightarrow> (\<exists>ps ss. s = ps @ sub @ ss)"
proof (induction s)
  case Nil
  show ?case by auto
next
  case (Cons c cs)
  have "(\<exists>ps ss. c # cs = ps @ sub @ ss) \<longleftrightarrow>
        (\<exists>ss. c # cs = sub @ ss) \<or> (\<exists>ps ss. cs = ps @ sub @ ss)"
  proof
    assume "\<exists>ps ss. c # cs = ps @ sub @ ss"
    then obtain ps ss where eq: "c # cs = ps @ sub @ ss" by blast
    show "(\<exists>ss. c # cs = sub @ ss) \<or> (\<exists>ps ss. cs = ps @ sub @ ss)"
    proof (cases ps)
      case Nil
      with eq show ?thesis by auto
    next
      case (Cons q qs)
      with eq have "cs = qs @ sub @ ss" by simp
      then show ?thesis by blast
    qed
  next
    assume "(\<exists>ss. c # cs = sub @ ss) \<or> (\<exists>ps ss. cs = ps @ sub @ ss)"
    then show "\<exists>ps ss. c # cs = ps @ sub @ ss"
    proof
      assume "\<exists>ss. c # cs = sub @ ss"
      then obtain ss where "c # cs = [] @ sub @ ss" by auto
      then show ?thesis by blast
    next
      assume "\<exists>ps ss. cs = ps @ sub @ ss"
      then obtain ps ss where "c # cs = (c # ps) @ sub @ ss" by auto
      then show ?thesis by blast
    qed
  qed
  with Cons show ?case by (simp add: startswith_iff)
qed

section \<open>Properties of the scorer's building blocks\<close>

lemma map_of_Some_in_keys: "map_of d k = Some v \<Longrightarrow> k \<in> fst ` set d"
  by (metis map_of_eq_None_iff option.distinct(1))

lemma round_half_even_of_int: "round_half_even (of_int n) = n"
  by (simp add: round_half_even_def)

lemma round1_tenths: "round1 (of_int n / 10) = of_int n / 10"
  by (simp add: round1_def round_half_even_of_int)

lemma round1_of_int: "round1 (of_int n) = of_int n"
proof -
  have "round1 (of_int (n * 10) / 10) = of_int (n * 10) / 10" by (rule round1_tenths)
  then show ?thesis by simp
qed

text \<open>The variables are bound exactly when the input was decoded.\<close>

lemma permit_block_unbound:
  "loads_if_str loads pd = Inl e \<Longrightarrow> permit_block loads pd = (Inl e, None, None)"
  by (simp add: permit_block_def)

lemma permit_block_bound:
  "loads_if_str loads pd = Inr v \<Longrightarrow> \<exists>s f w. permit_block loads pd = (s, Some f, Some w)"
  by (simp add: permit_block_def split: sum.splits bool.splits option.splits)

text \<open>The block on a dictionary that holds a dictionary under \<^verbatim>\<open>permit_form\<close>.\<close>

lemma permit_block_form:
  assumes "loads_if_str loads pd = Inr (JObj dat)"
      and "map_of dat ''permit_form'' = Some (JObj form)"
  shows "permit_block loads pd =
     (let fees = dict_get form ''fees'' (JInt 500);
          processing_time = dict_get form ''processing_time'' (JStr ''4 weeks'')
      in case py_in ''week'' processing_time of
           Inl e \<Rightarrow> (Inl e, Some fees, Some 4)
         | Inr False \<Rightarrow> (permit_formula fees 4, Some fees, Some 4)
         | Inr True \<Rightarrow>
            (case py_split_first processing_time of
               Inl e \<Rightarrow> (Inl e, Some fees, Some 4)
             | Inr first \<Rightarrow>
                (case py_int first of
                   None \<Rightarrow> (Inl ValueError, Some fees, Some 4)
                 | Some w \<Rightarrow> (permit_formula fees w, Some fees, Some w))))"
  using assms map_of_Some_in_keys [OF assms(2)]
  by (simp add: permit_block_def Let_def)

lemma permit_block_parsed:
  assumes "loads_if_str loads pd = Inr (JObj dat)"
      and "map_of dat ''permit_form'' = Some (JObj form)"
      and "dict_get form ''processing_time'' (JStr ''4 weeks'') = JStr pt"
      and "str_in ''week'' pt"
      and "py_int (before_hyphen pt) = Some w"
  shows "permit_block loads pd =
     (permit_formula (dict_get form ''fees'' (JInt 500)) w,
      Some (dict_get form ''fees'' (JInt 500)), Some w)"
  using assms(3-5) by (simp add: permit_block_form [OF assms(1,2)] Let_def)

lemma permit_block_unparseable:
  assumes "loads_if_str loads pd = Inr (JObj dat)"
      and "map_of dat ''permit_form'' = Some (JObj form)"
      and "dict_get form ''processing_time'' (JStr ''4 weeks'') = JStr pt"
      and "str_in ''week'' pt"
      and "py_int (before_hyphen pt) = None"
  shows "permit_block loads pd =
     (Inl ValueError, Some (dict_get form ''fees'' (JInt 500)), Some 4)"
  using assms(3-5) by (simp add: permit_block_form [OF assms(1,2)] Let_def)

lemma permit_block_no_week:
  assumes "loads_if_str loads pd = Inr (JObj dat)"
      and "map_of dat ''permit_form'' = Some (JObj form)"
      and "dict_get form ''processing_time'' (JStr ''4 weeks'') = JStr pt"
      and "\<not> str_in ''week'' pt"
  shows "permit_block loads pd =
     (permit_formula (dict_get form ''fees'' (JInt 500)) 4,
      Some (dict_get form ''fees'' (JInt 500)), Some 4)"
  using assms(3-4) by (simp add: permit_block_form [OF assms(1,2)] Let_def)

text \<open>The default text \<^verbatim>\<open>'4 weeks'\<close> holds \<^verbatim>\<open>'week'\<close>, and \<^verbatim>\<open>int('4 weeks')\<close> fails.\<close>

lemma default_time_has_week: "str_in ''week'' ''4 weeks''"
  by code_simp

lemma default_time_unparseable: "py_int (before_hyphen ''4 weeks'') = None"
  by code_simp

text \<open>The formula on numbers within the range of a float.\<close>

lemma permit_formula_in_range:
  assumes "num_of v = Some f"
      and "\<not> too_large_for_float (f / 10)"
      and "\<not> too_large_for_float (of_int (w * 5))"
  shows "permit_formula v w = Inr (max 0 (100 - f / 10 - of_int w * 5))"
  using assms by (cases v) (auto simp: permit_formula_def raising_def int_to_float_def)

lemma default_formula: "permit_formula (JInt 500) 4 = Inr 30"
  using permit_formula_in_range [of "JInt 500" 500 4]
  by (simp add: too_large_for_float_def float_limit_def)

lemma calculate_returns:
  assumes "permit_block loads pd = (s, Some f, Some w)"
  shows "calculate_feasibility_score loads pd rd =
     Inr \<lparr>overall_score =
            round1 (weighted_sum (permit_score_of loads pd) (research_score_of loads rd)),
          decision =
            fst (decide (weighted_sum (permit_score_of loads pd) (research_score_of loads rd))),
          risk_level =
            snd (decide (weighted_sum (permit_score_of loads pd) (research_score_of loads rd))),
          permit_score = round1 (permit_score_of loads pd),
          research_score = round1 (research_score_of loads rd),
          fees = f, processing_weeks = w\<rparr>"
  by (simp add: calculate_feasibility_score_def assms Let_def split: prod.splits)

lemma research_score_bounds:
  "20 \<le> research_score_of loads rd \<and> research_score_of loads rd \<le> 80"
  by (simp add: research_score_of_def research_block_def split: sum.splits option.splits)

lemma research_score_dict:
  "loads_if_str loads rd = Inr (JObj d) \<Longrightarrow>
   num_of (dict_get d ''total_articles'' (JInt 0)) = Some t \<Longrightarrow>
   research_score_of loads rd = max 20 (min 80 (70 - t * 2))"
  by (simp add: research_score_of_def research_block_def)

text \<open>Numbers up to a million fit a float.\<close>

lemma fits_float: "\<bar>q\<bar> \<le> 1000000 \<Longrightarrow> \<not> too_large_for_float q"
  by (simp add: too_large_for_float_def float_limit_def)

text \<open>Evaluating the scorer on a form with fees and a processing time.\<close>

lemma permit_formula_small:
  "\<bar>of_int i / 10 :: rat\<bar> \<le> 1000000 \<Longrightarrow> \<bar>of_int (w * 5) :: rat\<bar> \<le> 1000000 \<Longrightarrow>
   permit_formula (JInt i) w = Inr (max 0 (100 - of_int i / 10 - of_int w * 5))"
  by (rule permit_formula_in_range) (simp_all add: fits_float)


lemma permit_block_other:
  assumes "\<not> str_in ''week'' pt"
  shows "permit_block loads
           (JObj [(''permit_form'', JObj [(''fees'', v), (''processing_time'', JStr pt)])])
         = (permit_formula v 4, Some v, Some 4)"
  using permit_block_no_week
    [of loads "JObj [(''permit_form'', JObj [(''fees'', v), (''processing_time'', JStr pt)])]"
        "[(''permit_form'', JObj [(''fees'', v), (''processing_time'', JStr pt)])]"
        "[(''fees'', v), (''processing_time'', JStr pt)]" pt] assms
  by (simp add: loads_if_str_def dict_get_def)



lemma calculate_on_scores:
  assumes "permit_block loads pd = (Inr p, Some f, Some w)"
      and "research_score_of loads rd = r"
  shows "calculate_feasibility_score loads pd rd =
     Inr \<lparr>overall_score = round1 (weighted_sum p r),
          decision = fst (decide (weighted_sum p r)),
          risk_level = snd (decide (weighted_sum p r)),
          permit_score = round1 p, research_score = round1 r,
          fees = f, processing_weeks = w\<rparr>"
  using calculate_returns [OF assms(1), of rd] assms
  by (simp add: permit_score_of_def)

lemma research_examples:
  "research_score_of loads (JObj []) = 70"
  "research_score_of loads (JObj [(''total_articles'', JInt 0)]) = 70"
  "research_score_of loads (JObj [(''total_articles'', JInt 5)]) = 60"
  "research_score_of loads (JObj [(''total_articles'', JInt 10)]) = 50"
  "research_score_of loads (JObj [(''total_articles'', JInt 15)]) = 40"
  "research_score_of loads (JObj [(''total_articles'', JInt 30)]) = 20"
  by (simp_all add: research_score_of_def research_block_def loads_if_str_def dict_get_def)

lemma days_10_15: "\<not> str_in ''week'' ''10-15 business days''"
  "py_int (before_hyphen ''10-15 business days'') = Some 10"
  by code_simp+

section \<open>Properties of the deduplication loop\<close>

lemma dedup_loop_append:
  "dedup_loop (xs @ ys) st = raising (dedup_loop xs st) (dedup_loop ys)"
proof (induction xs arbitrary: st)
  case Nil
  show ?case by (simp add: raising_def)
next
  case (Cons a xs)
  obtain seen uniq where st: "st = (seen, uniq)" by (cases st)
  show ?case
    by (simp add: st Cons raising_def split: sum.splits)
qed

text \<open>Titles with one key are both true or both false.\<close>

lemma hash_key_truthy:
  "hash_key t1 = Inr k \<Longrightarrow> hash_key t2 = Inr k \<Longrightarrow> truthy t1 = truthy t2"
  by (cases t1; cases t2) (auto split: if_splits)

lemma title_key_truthy:
  "title_key a = Inr k \<Longrightarrow> title_key b = Inr k \<Longrightarrow> truthy_title a = truthy_title b"
  by (auto simp: title_key_def truthy_title_def split: sum.splits dest: hash_key_truthy)

lemma dedup_loop_step:
  "dedup_loop (a # rest) (seen, uniq) =
     (case title_key a of
        Inl e \<Rightarrow> Inl e
      | Inr k \<Rightarrow>
          if k \<notin> seen \<and> truthy_title a
          then dedup_loop rest (insert k seen, uniq @ [a])
          else dedup_loop rest (seen, uniq))"
  by (simp add: title_key_def truthy_title_def split: sum.splits)

declare dedup_loop.simps(2) [simp del]

lemma key_set_Nil [simp]: "key_set [] = {}"
  by (simp add: key_set_def)

lemma key_set_Cons [simp]:
  "title_key a = Inr k \<Longrightarrow> key_set (a # ys) = insert k (key_set ys)"
  by (auto simp: key_set_def)

lemma dedup_loop_Inr:
  "dedup_loop xs (seen, uniq) = Inr (seen', uniq') \<Longrightarrow>
     uniq' = uniq @ appended seen xs \<and> seen' = seen \<union> key_set (appended seen xs)
     \<and> (\<forall>a \<in> set xs. \<exists>k. title_key a = Inr k)"
proof (induction xs arbitrary: seen uniq)
  case Nil
  then show ?case by simp
next
  case (Cons a rest)
  from Cons.prems obtain k where k: "title_key a = Inr k"
    by (auto simp: dedup_loop_step split: sum.splits)
  show ?case
  proof (cases "k \<notin> seen \<and> truthy_title a")
    case True
    with Cons.prems k have "dedup_loop rest (insert k seen, uniq @ [a]) = Inr (seen', uniq')"
      by (simp add: dedup_loop_step)
    from Cons.IH [OF this] show ?thesis using True k by auto
  next
    case False
    with Cons.prems k have "dedup_loop rest (seen, uniq) = Inr (seen', uniq')"
      by (auto simp add: dedup_loop_step)
    from Cons.IH [OF this] show ?thesis using False k by auto
  qed
qed

text \<open>Articles whose titles are all seen or false leave the state as it is.\<close>

lemma dedup_loop_noop:
  "\<forall>a \<in> set xs. \<exists>k. title_key a = Inr k \<and> (k \<in> seen \<or> \<not> truthy_title a) \<Longrightarrow>
     dedup_loop xs (seen, uniq) = Inr (seen, uniq)"
  by (induction xs) (auto simp: dedup_loop_step)

lemma dedup_loop_total:
  "\<forall>a \<in> set xs. \<exists>k. title_key a = Inr k \<Longrightarrow> \<exists>st. dedup_loop xs (seen, uniq) = Inr st"
  by (induction xs arbitrary: seen uniq) (auto simp: dedup_loop_step)

lemma appended_covers:
  "\<forall>a \<in> set xs. \<exists>k. title_key a = Inr k \<Longrightarrow> a \<in> set xs \<Longrightarrow> title_key a = Inr k \<Longrightarrow>
     truthy_title a \<Longrightarrow> k \<in> seen \<union> key_set (appended seen xs)"
proof (induction xs arbitrary: seen)
  case Nil
  then show ?case by simp
next
  case (Cons b rest)
  from Cons.prems(1) obtain kb where kb: "title_key b = Inr kb" by auto
  have rest_ok: "\<forall>a \<in> set rest. \<exists>k. title_key a = Inr k" using Cons.prems(1) by simp
  show ?case
  proof (cases "a = b")
    case True
    with kb Cons.prems(3) have "kb = k" by simp
    with kb Cons.prems(4) True show ?thesis by auto
  next
    case False
    with Cons.prems(2) have "a \<in> set rest" by simp
    from Cons.IH [OF rest_ok this Cons.prems(3,4)]
    have "k \<in> seen' \<union> key_set (appended seen' rest)" for seen' .
    from this [of seen] this [of "insert kb seen"] show ?thesis using kb by auto
  qed
qed

lemma appended_fresh:
  "u \<in> set (appended seen xs) \<Longrightarrow> truthy_title u \<and> (\<exists>k. title_key u = Inr k \<and> k \<notin> seen)"
proof (induction xs arbitrary: seen)
  case Nil
  then show ?case by simp
next
  case (Cons a rest)
  from Cons.prems obtain k where k: "title_key a = Inr k"
    by (cases "title_key a") auto
  show ?case
  proof (cases "k \<notin> seen \<and> truthy_title a")
    case True
    with Cons.prems k have "u = a \<or> u \<in> set (appended (insert k seen) rest)" by simp
    then show ?thesis
    proof
      assume "u = a"
      with True k show ?thesis by simp
    next
      assume "u \<in> set (appended (insert k seen) rest)"
      from Cons.IH [OF this] show ?thesis by auto
    qed
  next
    case False
    with Cons.prems k have "u \<in> set (appended seen rest)" by auto
    from Cons.IH [OF this] show ?thesis .
  qed
qed

lemma appended_subseq: "subseq (appended seen xs) xs"
  by (induction xs arbitrary: seen) (auto split: sum.splits)

lemma appended_distinct: "distinct (map title_key (appended seen xs))"
proof (induction xs arbitrary: seen)
  case Nil
  show ?case by simp
next
  case (Cons a rest)
  show ?case
  proof (cases "title_key a")
    case (Inl e)
    then show ?thesis by simp
  next
    case (Inr k)
    have "title_key a \<notin> title_key ` set (appended (insert k seen) rest)"
      using appended_fresh [of _ "insert k seen" rest] Inr by force
    with Cons Inr show ?thesis by simp
  qed
qed

text \<open>Each kept article is the first of the input with its title.\<close>

lemma appended_first:
  "u \<in> set (appended seen xs) \<Longrightarrow> find (\<lambda>a. title_key a = title_key u) xs = Some u"
proof (induction xs arbitrary: seen)
  case Nil
  then show ?case by simp
next
  case (Cons a rest)
  from Cons.prems obtain k where k: "title_key a = Inr k"
    by (cases "title_key a") auto
  show ?case
  proof (cases "k \<notin> seen \<and> truthy_title a")
    case True
    with Cons.prems k have "u = a \<or> u \<in> set (appended (insert k seen) rest)" by simp
    then show ?thesis
    proof
      assume "u = a"
      then show ?thesis by simp
    next
      assume u: "u \<in> set (appended (insert k seen) rest)"
      from appended_fresh [OF u] k have "title_key a \<noteq> title_key u" by auto
      with Cons.IH [OF u] show ?thesis by simp
    qed
  next
    case False
    with Cons.prems k have u: "u \<in> set (appended seen rest)" by auto
    from appended_fresh [OF u] obtain ku
      where ku: "truthy_title u" "title_key u = Inr ku" "ku \<notin> seen" by blast
    have "title_key a \<noteq> title_key u"
    proof
      assume eq: "title_key a = title_key u"
      with k ku have "k = ku" by simp
      moreover from eq k ku have "truthy_title a = truthy_title u"
        using title_key_truthy by metis
      ultimately show False using False ku by simp
    qed
    with Cons.IH [OF u] show ?thesis by simp
  qed
qed

section \<open>Inputs on which the functions raise\<close>

text \<open>
  A permitting input that is a string and no JSON leaves \<^verbatim>\<open>fees\<close> and
  \<^verbatim>\<open>processing_weeks\<close> unassigned, and the scorer raises when it builds its result.
\<close>

lemma undecodable_permitting_raises:
  "loads s = Inl e \<Longrightarrow>
   calculate_feasibility_score loads (JStr s) research_data = Inl UnboundLocalError"
  by (simp add: calculate_feasibility_score_def permit_block_def loads_if_str_def Let_def
        split: prod.splits)

text \<open>System details that parse to a value other than a dictionary have no \<^verbatim>\<open>items\<close>.\<close>

lemma merge_details_not_dict:
  "(\<forall>items. details \<noteq> JObj items) \<Longrightarrow> merge_details form details = Inl AttributeError"
  by (cases details) (simp_all add: merge_details_def)

section \<open>The claims about the scorer\<close>

lemma round1_examples:
  "round1 70 = 70" "round1 (699 / 10) = 699 / 10" "round1 50 = 50"
  "round1 (499 / 10) = 499 / 10" "round1 46 = 46" "round1 30 = 30" "round1 20 = 20"
  "round1 60 = 60" "round1 58 = 58" "round1 (766 / 10) = 766 / 10"
  "round1 (1749 / 25) = 70" "round1 (383 / 5) = 383 / 5"
  by code_simp+








text \<open>
  Claim C3. When the research input is a dictionary (or a string decoded to one) with a number
  \<open>t\<close> for \<^verbatim>\<open>total_articles\<close> (0 when there is none), the research score is
  \<open>max(20, min(80, 70 - t \<times> 2))\<close>. The score always lies between 20 and 80, any exception of
  the block gives the flat 60, and the result carries the score rounded to one decimal.
  Every input is of one of the two kinds: the block raises, or the input is such a
  dictionary. No articles give 70, thirty articles give 20.
\<close>

theorem research_score_formula:
  "(\<forall>d t. loads_if_str loads research_data = Inr (JObj d)
         \<and> num_of (dict_get d ''total_articles'' (JInt 0)) = Some t
       \<longrightarrow> research_score_of loads research_data = max 20 (min 80 (70 - t * 2)))
   \<and> 20 \<le> research_score_of loads research_data
   \<and> research_score_of loads research_data \<le> 80
   \<and> (\<forall>e. research_block loads research_data = Inl e
       \<longrightarrow> research_score_of loads research_data = 60)
   \<and> (\<forall>s f w. permit_block loads permitting_data = (s, Some f, Some w)
       \<longrightarrow> (\<exists>res. calculate_feasibility_score loads permitting_data research_data = Inr res
              \<and> research_score res = round1 (research_score_of loads research_data)))
   \<and> ((\<exists>e. research_block loads research_data = Inl e)
        \<or> (\<exists>d t. loads_if_str loads research_data = Inr (JObj d)
                 \<and> num_of (dict_get d ''total_articles'' (JInt 0)) = Some t))
   \<and> research_score_of loads (JObj []) = 70
   \<and> research_score_of loads (JObj [(''total_articles'', JInt 0)]) = 70
   \<and> research_score_of loads (JObj [(''total_articles'', JInt 30)]) = 20"
proof -
  have either: "(\<exists>e. research_block loads research_data = Inl e)
        \<or> (\<exists>d t. loads_if_str loads research_data = Inr (JObj d)
                 \<and> num_of (dict_get d ''total_articles'' (JInt 0)) = Some t)"
  proof (cases "loads_if_str loads research_data")
    case (Inl e)
    then show ?thesis by (simp add: research_block_def)
  next
    case (Inr v)
    then show ?thesis
      by (cases v) (auto simp: research_block_def split: option.splits)
  qed
  have a: "\<forall>d t. loads_if_str loads research_data = Inr (JObj d)
         \<and> num_of (dict_get d ''total_articles'' (JInt 0)) = Some t
       \<longrightarrow> research_score_of loads research_data = max 20 (min 80 (70 - t * 2))"
    by (simp add: research_score_dict)
  have b: "\<forall>e. research_block loads research_data = Inl e
       \<longrightarrow> research_score_of loads research_data = 60"
    by (simp add: research_score_of_def)
  have c: "\<forall>s f w. permit_block loads permitting_data = (s, Some f, Some w)
       \<longrightarrow> (\<exists>res. calculate_feasibility_score loads permitting_data research_data = Inr res
              \<and> research_score res = round1 (research_score_of loads research_data))"
    by (simp add: calculate_returns)
  have d: "research_score_of loads (JObj []) = 70"
    "research_score_of loads (JObj [(''total_articles'', JInt 0)]) = 70"
    "research_score_of loads (JObj [(''total_articles'', JInt 30)]) = 20"
    by (simp_all add: research_score_of_def research_block_def loads_if_str_def dict_get_def)
  from a b c d either research_score_bounds [of loads research_data] show ?thesis
    by (intro conjI) simp_all
qed

theorem research_score_formula_witness:
  "research_score_of no_json (JObj [(''total_articles'', JInt 7)]) = 56
   \<and> research_score_of no_json (JStr ''no json'') = 60
   \<and> (\<exists>res. calculate_feasibility_score no_json (JObj []) (JObj [(''total_articles'', JInt 7)]) = Inr res
         \<and> research_score res = 56)"
proof -
  have h1: "loads_if_str no_json (JObj [(''total_articles'', JInt 7)])
      = Inr (JObj [(''total_articles'', JInt 7)])
      \<and> num_of (dict_get [(''total_articles'', JInt 7)] ''total_articles'' (JInt 0)) = Some 7"
    by (simp add: loads_if_str_def dict_get_def)
  have h2: "research_block no_json (JStr ''no json'') = Inl JSONDecodeError"
    by (simp add: research_block_def loads_if_str_def no_json_def)
  have h3: "permit_block no_json (JObj []) = (Inr 30, Some (JInt 500), Some 4)"
    by (simp add: permit_block_def loads_if_str_def default_formula)
  have r: "round1 56 = 56" by code_simp
  from research_score_formula [of no_json "JObj [(''total_articles'', JInt 7)]" "JObj []"] h1 h3
  have a: "research_score_of no_json (JObj [(''total_articles'', JInt 7)]) = 56"
    and c: "\<exists>res. calculate_feasibility_score no_json (JObj []) (JObj [(''total_articles'', JInt 7)]) = Inr res
         \<and> research_score res = round1 (research_score_of no_json (JObj [(''total_articles'', JInt 7)]))"
    by auto
  from research_score_formula [of no_json "JStr ''no json''" "JObj []"] h2
  have b: "research_score_of no_json (JStr ''no json'') = 60" by blast
  from a b c r show ?thesis by simp
qed

lemma permit_form_block_facts:
  assumes top: "loads_if_str loads permitting_data = Inr (JObj dat)"
      and pf: "map_of dat ''permit_form'' = Some (JObj permit_form)"
  shows "
        fst (snd (permit_block loads permitting_data))
          = Some (dict_get permit_form ''fees'' (JInt 500))
      \<and> (map_of permit_form ''fees'' = None
          \<longrightarrow> fst (snd (permit_block loads permitting_data)) = Some (JInt 500))
      \<and> (\<forall>pt w. dict_get permit_form ''processing_time'' (JStr ''4 weeks'') = JStr pt
              \<and> str_in ''week'' pt \<and> py_int (before_hyphen pt) = Some w
          \<longrightarrow> snd (snd (permit_block loads permitting_data)) = Some w
            \<and> fst (permit_block loads permitting_data)
                = permit_formula (dict_get permit_form ''fees'' (JInt 500)) w)
      \<and> (\<forall>pt. dict_get permit_form ''processing_time'' (JStr ''4 weeks'') = JStr pt
              \<and> str_in ''week'' pt \<and> py_int (before_hyphen pt) = None
          \<longrightarrow> snd (snd (permit_block loads permitting_data)) = Some 4
            \<and> fst (permit_block loads permitting_data) = Inl ValueError
            \<and> permit_score_of loads permitting_data = 60)
      \<and> (\<forall>pt. dict_get permit_form ''processing_time'' (JStr ''4 weeks'') = JStr pt
              \<and> \<not> str_in ''week'' pt
          \<longrightarrow> snd (snd (permit_block loads permitting_data)) = Some 4
            \<and> fst (permit_block loads permitting_data)
                = permit_formula (dict_get permit_form ''fees'' (JInt 500)) 4)
      \<and> (map_of permit_form ''processing_time'' = None
          \<longrightarrow> snd (snd (permit_block loads permitting_data)) = Some 4
            \<and> fst (permit_block loads permitting_data) = Inl ValueError
            \<and> permit_score_of loads permitting_data = 60)
      \<and> (\<exists>res. calculate_feasibility_score loads permitting_data research_data = Inr res
            \<and> Some (fees res) = fst (snd (permit_block loads permitting_data))
            \<and> Some (processing_weeks res) = snd (snd (permit_block loads permitting_data))
            \<and> permit_score res = round1 (permit_score_of loads permitting_data))"
proof -
  note form = permit_block_form [OF top pf]
  have fees_var: "fst (snd (permit_block loads permitting_data))
        = Some (dict_get permit_form ''fees'' (JInt 500))"
    by (simp add: form Let_def split: sum.splits bool.splits option.splits)
  have fees_default: "map_of permit_form ''fees'' = None
        \<longrightarrow> fst (snd (permit_block loads permitting_data)) = Some (JInt 500)"
    by (simp add: fees_var dict_get_def)
  have parsed: "\<forall>pt w. dict_get permit_form ''processing_time'' (JStr ''4 weeks'') = JStr pt
            \<and> str_in ''week'' pt \<and> py_int (before_hyphen pt) = Some w
        \<longrightarrow> snd (snd (permit_block loads permitting_data)) = Some w
          \<and> fst (permit_block loads permitting_data)
              = permit_formula (dict_get permit_form ''fees'' (JInt 500)) w"
    by (simp add: permit_block_parsed [OF top pf])
  have unparseable: "\<forall>pt. dict_get permit_form ''processing_time'' (JStr ''4 weeks'') = JStr pt
            \<and> str_in ''week'' pt \<and> py_int (before_hyphen pt) = None
        \<longrightarrow> snd (snd (permit_block loads permitting_data)) = Some 4
          \<and> fst (permit_block loads permitting_data) = Inl ValueError
          \<and> permit_score_of loads permitting_data = 60"
    by (simp add: permit_block_unparseable [OF top pf] permit_score_of_def)
  have no_week: "\<forall>pt. dict_get permit_form ''processing_time'' (JStr ''4 weeks'') = JStr pt
            \<and> \<not> str_in ''week'' pt
        \<longrightarrow> snd (snd (permit_block loads permitting_data)) = Some 4
          \<and> fst (permit_block loads permitting_data)
              = permit_formula (dict_get permit_form ''fees'' (JInt 500)) 4"
    by (simp add: permit_block_no_week [OF top pf])
  have absent: "map_of permit_form ''processing_time'' = None
        \<longrightarrow> snd (snd (permit_block loads permitting_data)) = Some 4
          \<and> fst (permit_block loads permitting_data) = Inl ValueError
          \<and> permit_score_of loads permitting_data = 60"
  proof
    assume "map_of permit_form ''processing_time'' = None"
    then have "dict_get permit_form ''processing_time'' (JStr ''4 weeks'') = JStr ''4 weeks''"
      by (simp add: dict_get_def)
    from permit_block_unparseable
           [OF top pf this default_time_has_week default_time_unparseable]
    show "snd (snd (permit_block loads permitting_data)) = Some 4
          \<and> fst (permit_block loads permitting_data) = Inl ValueError
          \<and> permit_score_of loads permitting_data = 60"
      by (simp add: permit_score_of_def)
  qed
  from permit_block_bound [OF top] obtain s f w
    where pb: "permit_block loads permitting_data = (s, Some f, Some w)" by blast
  have returned: "\<exists>res. calculate_feasibility_score loads permitting_data research_data = Inr res
          \<and> Some (fees res) = fst (snd (permit_block loads permitting_data))
          \<and> Some (processing_weeks res) = snd (snd (permit_block loads permitting_data))
          \<and> permit_score res = round1 (permit_score_of loads permitting_data)"
    by (simp add: calculate_returns [OF pb] pb)
  from fees_var fees_default parsed unparseable no_week absent returned
  show ?thesis by (intro conjI)
qed

text \<open>
  Claim C4, as the code has it. Any exception in the first \<^verbatim>\<open>try\<close> gives the flat permit
  score 60, the formula skipped. For a dictionary \<^verbatim>\<open>permit_form\<close>: \<^verbatim>\<open>fees\<close> is the form's
  value, 500 when there is none; when the processing time is a string that holds
  \<^verbatim>\<open>'week'\<close>, \<^verbatim>\<open>processing_weeks\<close> is the integer that the text before the first hyphen
  parses to, and when that text does not parse \<^verbatim>\<open>processing_weeks\<close> stays 4 and the
  \<^verbatim>\<open>ValueError\<close> gives the flat 60; when the string does not hold \<^verbatim>\<open>'week'\<close>,
  \<^verbatim>\<open>processing_weeks\<close> stays 4 and the formula is applied; a form without a processing time
  is read as \<^verbatim>\<open>'4 weeks'\<close>, which holds \<^verbatim>\<open>'week'\<close> and does not parse. The result
  carries \<^verbatim>\<open>fees\<close> and \<^verbatim>\<open>processing_weeks\<close> as the block left them.
\<close>

theorem processing_weeks_extraction:
  "(\<forall>e. fst (permit_block loads permitting_data) = Inl e
       \<longrightarrow> permit_score_of loads permitting_data = 60)
   \<and> (\<forall>dat permit_form.
        loads_if_str loads permitting_data = Inr (JObj dat)
        \<and> map_of dat ''permit_form'' = Some (JObj permit_form)
      \<longrightarrow>
        fst (snd (permit_block loads permitting_data))
          = Some (dict_get permit_form ''fees'' (JInt 500))
      \<and> (map_of permit_form ''fees'' = None
          \<longrightarrow> fst (snd (permit_block loads permitting_data)) = Some (JInt 500))
      \<and> (\<forall>pt w. dict_get permit_form ''processing_time'' (JStr ''4 weeks'') = JStr pt
              \<and> str_in ''week'' pt \<and> py_int (before_hyphen pt) = Some w
          \<longrightarrow> snd (snd (permit_block loads permitting_data)) = Some w
            \<and> fst (permit_block loads permitting_data)
                = permit_formula (dict_get permit_form ''fees'' (JInt 500)) w)
      \<and> (\<forall>pt. dict_get permit_form ''processing_time'' (JStr ''4 weeks'') = JStr pt
              \<and> str_in ''week'' pt \<and> py_int (before_hyphen pt) = None
          \<longrightarrow> snd (snd (permit_block loads permitting_data)) = Some 4
            \<and> fst (permit_block loads permitting_data) = Inl ValueError
            \<and> permit_score_of loads permitting_data = 60)
      \<and> (\<forall>pt. dict_get permit_form ''processing_time'' (JStr ''4 weeks'') = JStr pt
              \<and> \<not> str_in ''week'' pt
          \<longrightarrow> snd (snd (permit_block loads permitting_data)) = Some 4
            \<and> fst (permit_block loads permitting_data)
                = permit_formula (dict_get permit_form ''fees'' (JInt 500)) 4)
      \<and> (map_of permit_form ''processing_time'' = None
          \<longrightarrow> snd (snd (permit_block loads permitting_data)) = Some 4
            \<and> fst (permit_block loads permitting_data) = Inl ValueError
            \<and> permit_score_of loads permitting_data = 60)
      \<and> (\<exists>res. calculate_feasibility_score loads permitting_data research_data = Inr res
            \<and> Some (fees res) = fst (snd (permit_block loads permitting_data))
            \<and> Some (processing_weeks res) = snd (snd (permit_block loads permitting_data))
            \<and> permit_score res = round1 (permit_score_of loads permitting_data)))"
proof (rule conjI)
  show "\<forall>e. fst (permit_block loads permitting_data) = Inl e
       \<longrightarrow> permit_score_of loads permitting_data = 60"
    by (simp add: permit_score_of_def)
qed (intro allI impI, elim conjE, rule permit_form_block_facts)

text \<open>
  The theorem at work: \<^verbatim>\<open>'3-4 weeks'\<close> gives three weeks, an empty form has fees of 500 and
  the flat score 60, \<^verbatim>\<open>'30 days'\<close> leaves four weeks, and a \<^verbatim>\<open>permit_form\<close> that is
  \<^verbatim>\<open>None\<close> raises and gives 60.
\<close>

theorem processing_weeks_extraction_witness:
  "snd (snd (permit_block no_json
      (JObj [(''permit_form'', JObj [(''fees'', JInt 750), (''processing_time'', JStr ''3-4 weeks'')])])))
     = Some 3
   \<and> fst (snd (permit_block no_json (JObj [(''permit_form'', JObj [])]))) = Some (JInt 500)
   \<and> permit_score_of no_json (JObj [(''permit_form'', JObj [])]) = 60
   \<and> snd (snd (permit_block no_json
      (JObj [(''permit_form'', JObj [(''processing_time'', JStr ''30 days'')])]))) = Some 4
   \<and> permit_score_of no_json (JObj [(''permit_form'', JNull)]) = 60"
proof -
  have top: "loads_if_str no_json (JObj dat) = Inr (JObj dat)
      \<and> map_of [(''permit_form'', JObj form)] ''permit_form'' = Some (JObj form)" for dat form
    by (simp add: loads_if_str_def)
  have parsed: "dict_get [(''fees'', JInt 750), (''processing_time'', JStr ''3-4 weeks'')]
        ''processing_time'' (JStr ''4 weeks'') = JStr ''3-4 weeks''
      \<and> str_in ''week'' ''3-4 weeks'' \<and> py_int (before_hyphen ''3-4 weeks'') = Some 3"
    by code_simp
  have days: "dict_get [(''processing_time'', JStr ''30 days'')]
        ''processing_time'' (JStr ''4 weeks'') = JStr ''30 days''
      \<and> \<not> str_in ''week'' ''30 days''"
    by code_simp
  have raised: "fst (permit_block no_json (JObj [(''permit_form'', JNull)])) = Inl AttributeError"
    by (simp add: permit_block_def loads_if_str_def)
  note facts = processing_weeks_extraction [THEN conjunct2, rule_format, OF top]
  from facts [THEN conjunct2, THEN conjunct2, THEN conjunct1, rule_format, OF parsed]
  have a: "snd (snd (permit_block no_json
      (JObj [(''permit_form'', JObj [(''fees'', JInt 750), (''processing_time'', JStr ''3-4 weeks'')])])))
     = Some 3"
    by simp
  from facts [THEN conjunct2, THEN conjunct1, rule_format, of "[]"]
  have b: "fst (snd (permit_block no_json (JObj [(''permit_form'', JObj [])]))) = Some (JInt 500)"
    by simp
  from facts [THEN conjunct2, THEN conjunct2, THEN conjunct2, THEN conjunct2, THEN conjunct2,
              THEN conjunct1, rule_format, of "[]"]
  have c: "permit_score_of no_json (JObj [(''permit_form'', JObj [])]) = 60"
    by simp
  from facts [THEN conjunct2, THEN conjunct2, THEN conjunct2, THEN conjunct2, THEN conjunct1,
              rule_format, OF days]
  have d: "snd (snd (permit_block no_json
      (JObj [(''permit_form'', JObj [(''processing_time'', JStr ''30 days'')])]))) = Some 4"
    by simp
  from processing_weeks_extraction [THEN conjunct1, rule_format, OF raised]
  have e: "permit_score_of no_json (JObj [(''permit_form'', JNull)]) = 60" .
  from a b c d e show ?thesis by simp
qed

text \<open>
  Claim C4 as stated fails on a processing time without \<^verbatim>\<open>'week'\<close>: the text before the
  first hyphen of \<^verbatim>\<open>'10-15 business days'\<close> is the integer 10, and \<^verbatim>\<open>processing_weeks\<close> is
  4, the permit score 100 - 30 - 20 = 50.
\<close>

theorem leading_integer_without_week_ignored:
  "py_int (before_hyphen ''10-15 business days'') = Some 10
   \<and> calculate_feasibility_score no_json
       (JObj [(''permit_form'',
          JObj [(''fees'', JInt 300), (''processing_time'', JStr ''10-15 business days'')])])
       (JObj [])
     = Inr \<lparr>overall_score = 58, decision = ''CONDITIONAL GO'', risk_level = ''Medium'',
            permit_score = 50, research_score = 70, fees = JInt 300, processing_weeks = 4\<rparr>"
proof -
  have pb: "permit_block no_json
      (JObj [(''permit_form'',
          JObj [(''fees'', JInt 300), (''processing_time'', JStr ''10-15 business days'')])])
      = (Inr 50, Some (JInt 300), Some 4)"
    by (simp add: permit_block_other [OF days_10_15(1)] permit_formula_small)
  show ?thesis
    by (simp add: calculate_on_scores [OF pb research_examples(1)] days_10_15(2)
          weighted_sum_def decide_def round1_examples)
qed

section \<open>The claims about the jurisdiction classifier\<close>

lemma rules_lookup:
  "\<exists>rules. map_of JURISDICTION_RULES ''los_angeles'' = Some rules"
  "\<exists>rules. map_of JURISDICTION_RULES ''san_francisco'' = Some rules"
  "\<exists>rules. map_of JURISDICTION_RULES ''california_default'' = Some rules"
  by (simp_all add: JURISDICTION_RULES_def)

lemma classify_examples:
  "classify_jurisdiction ''123 Main St, Los Angeles, CA'' = ''los_angeles''"
  "classify_jurisdiction ''1 Market St, San Francisco'' = ''san_francisco''"
  "classify_jurisdiction ''Anytown, Nowhere'' = ''california_default''"
  by code_simp+

lemma classify_tool_eq:
  "map_of JURISDICTION_RULES (classify_jurisdiction address) = Some rules \<Longrightarrow>
   classify_jurisdiction_tool address =
     Inr (Dumps (JObj [(''address'', JStr address),
                       (''classified_jurisdiction'', JStr (classify_jurisdiction address)),
                       (''jurisdiction_info'', rules)]))"
  by (simp add: classify_jurisdiction_tool_def Let_def)

text \<open>
  Claim C5. For every address the classifier returns, without raising, exactly one of the
  three jurisdiction ids together with that id's whole record of \<^verbatim>\<open>JURISDICTION_RULES\<close>. The
  id is decided by substring tests on the lower-cased address: \<^verbatim>\<open>los_angeles\<close> when it
  holds \<^verbatim>\<open>'los angeles'\<close> or \<^verbatim>\<open>'la'\<close>, otherwise \<^verbatim>\<open>san_francisco\<close> when it holds
  \<^verbatim>\<open>'san francisco'\<close> or \<^verbatim>\<open>'sf'\<close>, otherwise \<^verbatim>\<open>california_default\<close>. The three addresses
  of the specification are classified as it says.
\<close>

theorem classifier_total:
  "(\<exists>j rules.
       (j = ''los_angeles'' \<or> j = ''san_francisco'' \<or> j = ''california_default'')
     \<and> map_of JURISDICTION_RULES j = Some rules
     \<and> classify_jurisdiction_tool address =
         Inr (Dumps (JObj [(''address'', JStr address),
                           (''classified_jurisdiction'', JStr j),
                           (''jurisdiction_info'', rules)]))
     \<and> (j = ''los_angeles'' \<longleftrightarrow>
          str_in ''los angeles'' (lower address) \<or> str_in ''la'' (lower address))
     \<and> (j = ''san_francisco'' \<longleftrightarrow>
          \<not> (str_in ''los angeles'' (lower address) \<or> str_in ''la'' (lower address))
          \<and> (str_in ''san francisco'' (lower address) \<or> str_in ''sf'' (lower address))))
   \<and> (\<exists>rules. map_of JURISDICTION_RULES ''los_angeles'' = Some rules
        \<and> classify_jurisdiction_tool ''123 Main St, Los Angeles, CA'' =
            Inr (Dumps (JObj [(''address'', JStr ''123 Main St, Los Angeles, CA''),
                              (''classified_jurisdiction'', JStr ''los_angeles''),
                              (''jurisdiction_info'', rules)])))
   \<and> (\<exists>rules. map_of JURISDICTION_RULES ''san_francisco'' = Some rules
        \<and> classify_jurisdiction_tool ''1 Market St, San Francisco'' =
            Inr (Dumps (JObj [(''address'', JStr ''1 Market St, San Francisco''),
                              (''classified_jurisdiction'', JStr ''san_francisco''),
                              (''jurisdiction_info'', rules)])))
   \<and> (\<exists>rules. map_of JURISDICTION_RULES ''california_default'' = Some rules
        \<and> classify_jurisdiction_tool ''Anytown, Nowhere'' =
            Inr (Dumps (JObj [(''address'', JStr ''Anytown, Nowhere''),
                              (''classified_jurisdiction'', JStr ''california_default''),
                              (''jurisdiction_info'', rules)])))"
proof -
  let ?la = "str_in ''los angeles'' (lower address) \<or> str_in ''la'' (lower address)"
  let ?sf = "str_in ''san francisco'' (lower address) \<or> str_in ''sf'' (lower address)"
  have general: "\<exists>j rules.
       (j = ''los_angeles'' \<or> j = ''san_francisco'' \<or> j = ''california_default'')
     \<and> map_of JURISDICTION_RULES j = Some rules
     \<and> classify_jurisdiction_tool address =
         Inr (Dumps (JObj [(''address'', JStr address),
                           (''classified_jurisdiction'', JStr j),
                           (''jurisdiction_info'', rules)]))
     \<and> (j = ''los_angeles'' \<longleftrightarrow> ?la)
     \<and> (j = ''san_francisco'' \<longleftrightarrow> \<not> ?la \<and> ?sf)"
  proof (cases ?la)
    case True
    then have j: "classify_jurisdiction address = ''los_angeles''"
      by (simp add: classify_jurisdiction_def Let_def)
    from rules_lookup(1) obtain rules
      where r: "map_of JURISDICTION_RULES ''los_angeles'' = Some rules" by blast
    from classify_tool_eq [of address rules] j r True show ?thesis by auto
  next
    case la: False
    show ?thesis
    proof (cases ?sf)
      case True
      with la have j: "classify_jurisdiction address = ''san_francisco''"
        by (simp add: classify_jurisdiction_def Let_def)
      from rules_lookup(2) obtain rules
        where r: "map_of JURISDICTION_RULES ''san_francisco'' = Some rules" by blast
      from classify_tool_eq [of address rules] j r la True show ?thesis by auto
    next
      case False
      with la have j: "classify_jurisdiction address = ''california_default''"
        by (simp add: classify_jurisdiction_def Let_def)
      from rules_lookup(3) obtain rules
        where r: "map_of JURISDICTION_RULES ''california_default'' = Some rules" by blast
      from classify_tool_eq [of address rules] j r la False show ?thesis by auto
    qed
  qed
  have ex1: "\<exists>rules. map_of JURISDICTION_RULES ''los_angeles'' = Some rules
        \<and> classify_jurisdiction_tool ''123 Main St, Los Angeles, CA'' =
            Inr (Dumps (JObj [(''address'', JStr ''123 Main St, Los Angeles, CA''),
                              (''classified_jurisdiction'', JStr ''los_angeles''),
                              (''jurisdiction_info'', rules)]))"
    using rules_lookup(1) classify_tool_eq [of "''123 Main St, Los Angeles, CA''"]
    by (auto simp: classify_examples)
  have ex2: "\<exists>rules. map_of JURISDICTION_RULES ''san_francisco'' = Some rules
        \<and> classify_jurisdiction_tool ''1 Market St, San Francisco'' =
            Inr (Dumps (JObj [(''address'', JStr ''1 Market St, San Francisco''),
                              (''classified_jurisdiction'', JStr ''san_francisco''),
                              (''jurisdiction_info'', rules)]))"
    using rules_lookup(2) classify_tool_eq [of "''1 Market St, San Francisco''"]
    by (auto simp: classify_examples)
  have ex3: "\<exists>rules. map_of JURISDICTION_RULES ''california_default'' = Some rules
        \<and> classify_jurisdiction_tool ''Anytown, Nowhere'' =
            Inr (Dumps (JObj [(''address'', JStr ''Anytown, Nowhere''),
                              (''classified_jurisdiction'', JStr ''california_default''),
                              (''jurisdiction_info'', rules)]))"
    using rules_lookup(3) classify_tool_eq [of "''Anytown, Nowhere''"]
    by (auto simp: classify_examples)
  from general ex1 ex2 ex3 show ?thesis by (intro conjI)
qed

theorem classifier_total_witness:
  "\<exists>rules. classify_jurisdiction_tool ''8770 W Olympic Blvd, Los Angeles, California 90035'' =
      Inr (Dumps (JObj
        [(''address'', JStr ''8770 W Olympic Blvd, Los Angeles, California 90035''),
         (''classified_jurisdiction'', JStr ''los_angeles''),
         (''jurisdiction_info'', rules)]))"
proof -
  have la: "str_in ''los angeles'' (lower ''8770 W Olympic Blvd, Los Angeles, California 90035'')
      \<or> str_in ''la'' (lower ''8770 W Olympic Blvd, Los Angeles, California 90035'')"
    by code_simp
  from classifier_total [of "''8770 W Olympic Blvd, Los Angeles, California 90035''", THEN conjunct1] la
  show ?thesis by auto
qed

text \<open>
  Claim C10. An address whose lower-casing holds a Los Angeles token and a San Francisco
  token is classified as \<^verbatim>\<open>los_angeles\<close>, and the location extracted from it is
  \<^verbatim>\<open>'Los Angeles California'\<close>: both functions test the Los Angeles tokens first.
\<close>

theorem los_angeles_before_san_francisco:
  assumes "str_in ''los angeles'' (lower address) \<or> str_in ''la'' (lower address)"
      and "str_in ''san francisco'' (lower address) \<or> str_in ''sf'' (lower address)"
  shows "classify_jurisdiction address = ''los_angeles''
     \<and> (\<exists>rules. map_of JURISDICTION_RULES ''los_angeles'' = Some rules
          \<and> classify_jurisdiction_tool address =
              Inr (Dumps (JObj [(''address'', JStr address),
                                (''classified_jurisdiction'', JStr ''los_angeles''),
                                (''jurisdiction_info'', rules)])))
     \<and> extract_location_from_address address = ''Los Angeles California''"
proof -
  from assms(1) have j: "classify_jurisdiction address = ''los_angeles''"
    by (simp add: classify_jurisdiction_def Let_def)
  from assms(1) have l: "extract_location_from_address address = ''Los Angeles California''"
    by (simp add: extract_location_from_address_def Let_def)
  from rules_lookup(1) obtain rules
    where r: "map_of JURISDICTION_RULES ''los_angeles'' = Some rules" by blast
  from classify_tool_eq [of address rules] j r l show ?thesis by auto
qed

text \<open>An address with \<^verbatim>\<open>la\<close> inside a word and San Francisco as its city.\<close>

theorem los_angeles_before_san_francisco_witness:
  "(str_in ''los angeles'' (lower ''12 Lake St, San Francisco'')
      \<or> str_in ''la'' (lower ''12 Lake St, San Francisco''))
   \<and> (str_in ''san francisco'' (lower ''12 Lake St, San Francisco'')
      \<or> str_in ''sf'' (lower ''12 Lake St, San Francisco''))
   \<and> classify_jurisdiction ''12 Lake St, San Francisco'' = ''los_angeles''
   \<and> extract_location_from_address ''12 Lake St, San Francisco'' = ''Los Angeles California''"
proof -
  have la: "str_in ''los angeles'' (lower ''12 Lake St, San Francisco'')
      \<or> str_in ''la'' (lower ''12 Lake St, San Francisco'')"
    by code_simp
  have sf: "str_in ''san francisco'' (lower ''12 Lake St, San Francisco'')
      \<or> str_in ''sf'' (lower ''12 Lake St, San Francisco'')"
    by code_simp
  from los_angeles_before_san_francisco [OF la sf] la sf show ?thesis by simp
qed

section \<open>The claims about the research tool\<close>

lemma dedup_loop_distinct_input:
  "distinct (map title_key ys) \<Longrightarrow>
   \<forall>u \<in> set ys. truthy_title u \<and> (\<exists>k. title_key u = Inr k \<and> k \<notin> seen) \<Longrightarrow>
   dedup_loop ys (seen, uniq) = Inr (seen \<union> key_set ys, uniq @ ys)"
proof (induction ys arbitrary: seen uniq)
  case Nil
  show ?case by simp
next
  case (Cons a rest)
  from Cons.prems(2) obtain k where k: "title_key a = Inr k" "k \<notin> seen" "truthy_title a"
    by auto
  have "\<forall>u \<in> set rest. truthy_title u \<and> (\<exists>k'. title_key u = Inr k' \<and> k' \<notin> insert k seen)"
  proof
    fix u assume u: "u \<in> set rest"
    with Cons.prems(2) obtain k' where k': "truthy_title u" "title_key u = Inr k'" "k' \<notin> seen"
      by auto
    from Cons.prems(1) u have "title_key a \<noteq> title_key u" by auto
    with k k' show "truthy_title u \<and> (\<exists>k'. title_key u = Inr k' \<and> k' \<notin> insert k seen)"
      by auto
  qed
  with Cons.IH [of "insert k seen" "uniq @ [a]"] Cons.prems(1)
  have "dedup_loop rest (insert k seen, uniq @ [a])
          = Inr (insert k seen \<union> key_set rest, (uniq @ [a]) @ rest)"
    by simp
  with k show ?case by (simp add: dedup_loop_step)
qed

lemma dedup_by_title_Inr:
  assumes "dedup_by_title xs = Inr us"
  shows "us = appended {} xs" and "\<forall>a \<in> set xs. \<exists>k. title_key a = Inr k"
    and "dedup_loop xs ({}, []) = Inr (key_set us, us)"
proof -
  from assms obtain seen' where l: "dedup_loop xs ({}, []) = Inr (seen', us)"
    by (auto simp: dedup_by_title_def split: sum.splits prod.splits)
  from dedup_loop_Inr [OF l] show "us = appended {} xs"
    and "\<forall>a \<in> set xs. \<exists>k. title_key a = Inr k"
    by simp_all
  from dedup_loop_Inr [OF l] l show "dedup_loop xs ({}, []) = Inr (key_set us, us)" by simp
qed

lemma dedup_twice: "dedup_by_title (xs @ xs) = dedup_by_title xs"
proof (cases "dedup_loop xs ({}, [])")
  case (Inl e)
  then show ?thesis by (simp add: dedup_by_title_def dedup_loop_append raising_def)
next
  case (Inr st)
  obtain seen' us where st: "st = (seen', us)" by (cases st)
  from dedup_loop_Inr [OF Inr [unfolded st]]
  have us: "us = appended {} xs" and seen': "seen' = key_set (appended {} xs)"
    and ok: "\<forall>a \<in> set xs. \<exists>k. title_key a = Inr k"
    by simp_all
  have "\<forall>a \<in> set xs. \<exists>k. title_key a = Inr k \<and> (k \<in> seen' \<or> \<not> truthy_title a)"
  proof
    fix a assume a: "a \<in> set xs"
    with ok obtain k where k: "title_key a = Inr k" by blast
    from appended_covers [OF ok a k, of "{}"] seen' k
    show "\<exists>k. title_key a = Inr k \<and> (k \<in> seen' \<or> \<not> truthy_title a)" by auto
  qed
  from dedup_loop_noop [OF this] have "dedup_loop xs (seen', us) = Inr (seen', us)" .
  with Inr st show ?thesis by (simp add: dedup_by_title_def dedup_loop_append raising_def)
qed

lemma truthy_title_iff:
  "truthy_title u \<longleftrightarrow> (\<exists>title. article_title u = Inr title \<and> truthy title)"
  by (auto simp: truthy_title_def split: sum.splits)

text \<open>
  Claim C6. Deduplicating a list of articles concatenated with itself gives what
  deduplicating it once gives, an exception included. The loop runs through whenever every
  article is a dictionary whose title can be hashed. Its output keeps the order of the input,
  holds no title twice, holds for each title the first article of the input with that title,
  and holds no article whose title is empty, missing or otherwise false; every title of the
  input that is true is in the output, and deduplicating the output changes nothing.
\<close>

theorem dedup_idempotent_order_preserving:
  "dedup_by_title (xs @ xs) = dedup_by_title xs
   \<and> ((\<forall>a \<in> set xs. \<exists>k. title_key a = Inr k) \<longrightarrow> (\<exists>us. dedup_by_title xs = Inr us))
   \<and> (\<forall>us. dedup_by_title xs = Inr us \<longrightarrow>
         subseq us xs
       \<and> distinct (map title_key us)
       \<and> (\<forall>u \<in> set us. find (\<lambda>a. title_key a = title_key u) xs = Some u)
       \<and> (\<forall>u \<in> set us. \<exists>title. article_title u = Inr title \<and> truthy title
                                  \<and> title \<noteq> JStr [])
       \<and> (\<forall>a \<in> set xs. \<forall>title. article_title a = Inr title \<and> truthy title
             \<longrightarrow> title_key a \<in> title_key ` set us)
       \<and> dedup_by_title us = Inr us)"
proof (intro conjI allI impI)
  show "dedup_by_title (xs @ xs) = dedup_by_title xs" by (rule dedup_twice)
next
  assume "\<forall>a \<in> set xs. \<exists>k. title_key a = Inr k"
  from dedup_loop_total [OF this, of "{}" "[]"] show "\<exists>us. dedup_by_title xs = Inr us"
    by (auto simp: dedup_by_title_def)
next
  fix us assume "dedup_by_title xs = Inr us"
  from dedup_by_title_Inr(1) [OF this] show "subseq us xs" by (simp add: appended_subseq)
next
  fix us assume "dedup_by_title xs = Inr us"
  from dedup_by_title_Inr(1) [OF this] show "distinct (map title_key us)"
    by (simp add: appended_distinct)
next
  fix us assume "dedup_by_title xs = Inr us"
  from dedup_by_title_Inr(1) [OF this]
  show "\<forall>u \<in> set us. find (\<lambda>a. title_key a = title_key u) xs = Some u"
    by (auto intro: appended_first)
next
  fix us assume "dedup_by_title xs = Inr us"
  note us = dedup_by_title_Inr(1) [OF this]
  show "\<forall>u \<in> set us. \<exists>title. article_title u = Inr title \<and> truthy title \<and> title \<noteq> JStr []"
  proof
    fix u assume "u \<in> set us"
    with us appended_fresh [of u "{}" xs] have "truthy_title u" by simp
    then obtain title where "article_title u = Inr title" "truthy title"
      by (auto simp: truthy_title_iff)
    then show "\<exists>title. article_title u = Inr title \<and> truthy title \<and> title \<noteq> JStr []"
      by auto
  qed
next
  fix us assume eq: "dedup_by_title xs = Inr us"
  note us = dedup_by_title_Inr(1) [OF eq] and ok = dedup_by_title_Inr(2) [OF eq]
  show "\<forall>a \<in> set xs. \<forall>title. article_title a = Inr title \<and> truthy title
             \<longrightarrow> title_key a \<in> title_key ` set us"
  proof (intro ballI allI impI)
    fix a title assume a: "a \<in> set xs" and t: "article_title a = Inr title \<and> truthy title"
    from ok a obtain k where k: "title_key a = Inr k" by blast
    from t have "truthy_title a" by (auto simp: truthy_title_iff)
    from appended_covers [OF ok a k this, of "{}"] us have "k \<in> key_set us" by simp
    then obtain u where "u \<in> set us" "title_key u = Inr k" by (auto simp: key_set_def)
    with k show "title_key a \<in> title_key ` set us" by (metis imageI)
  qed
next
  fix us assume eq: "dedup_by_title xs = Inr us"
  note us = dedup_by_title_Inr(1) [OF eq]
  have d: "distinct (map title_key us)" by (simp add: us appended_distinct)
  have f: "\<forall>u \<in> set us. truthy_title u \<and> (\<exists>k. title_key u = Inr k \<and> k \<notin> {})"
    using appended_fresh [of _ "{}" xs] us by auto
  from dedup_loop_distinct_input [OF d f, of "[]"] show "dedup_by_title us = Inr us"
    by (simp add: dedup_by_title_def)
qed


text \<open>
  Five articles: two with the title A, one with an empty title, one with the title B, one
  without a title. Once or twice over, the first A and B are kept.
\<close>

theorem dedup_idempotent_witness:
  "dedup_by_title
     ([JObj [(''title'', JStr ''A''), (''url'', JStr ''1'')], JObj [(''title'', JStr [])],
       JObj [(''title'', JStr ''B'')], JObj [(''title'', JStr ''A''), (''url'', JStr ''2'')],
       JObj [(''url'', JStr ''3'')]]
      @ [JObj [(''title'', JStr ''A''), (''url'', JStr ''1'')], JObj [(''title'', JStr [])],
         JObj [(''title'', JStr ''B'')], JObj [(''title'', JStr ''A''), (''url'', JStr ''2'')],
         JObj [(''url'', JStr ''3'')]])
     = Inr [JObj [(''title'', JStr ''A''), (''url'', JStr ''1'')], JObj [(''title'', JStr ''B'')]]
   \<and> subseq [JObj [(''title'', JStr ''A''), (''url'', JStr ''1'')], JObj [(''title'', JStr ''B'')]]
        [JObj [(''title'', JStr ''A''), (''url'', JStr ''1'')], JObj [(''title'', JStr [])],
         JObj [(''title'', JStr ''B'')], JObj [(''title'', JStr ''A''), (''url'', JStr ''2'')],
         JObj [(''url'', JStr ''3'')]]"
proof -
  have once: "dedup_by_title
       [JObj [(''title'', JStr ''A''), (''url'', JStr ''1'')], JObj [(''title'', JStr [])],
        JObj [(''title'', JStr ''B'')], JObj [(''title'', JStr ''A''), (''url'', JStr ''2'')],
        JObj [(''url'', JStr ''3'')]]
     = Inr [JObj [(''title'', JStr ''A''), (''url'', JStr ''1'')], JObj [(''title'', JStr ''B'')]]"
    by code_simp
  note inst = dedup_idempotent_order_preserving
    [of "[JObj [(''title'', JStr ''A''), (''url'', JStr ''1'')], JObj [(''title'', JStr [])],
          JObj [(''title'', JStr ''B'')], JObj [(''title'', JStr ''A''), (''url'', JStr ''2'')],
          JObj [(''url'', JStr ''3'')]]"]
  from inst [THEN conjunct1] once
  have twice: "dedup_by_title
     ([JObj [(''title'', JStr ''A''), (''url'', JStr ''1'')], JObj [(''title'', JStr [])],
       JObj [(''title'', JStr ''B'')], JObj [(''title'', JStr ''A''), (''url'', JStr ''2'')],
       JObj [(''url'', JStr ''3'')]]
      @ [JObj [(''title'', JStr ''A''), (''url'', JStr ''1'')], JObj [(''title'', JStr [])],
         JObj [(''title'', JStr ''B'')], JObj [(''title'', JStr ''A''), (''url'', JStr ''2'')],
         JObj [(''url'', JStr ''3'')]])
     = Inr [JObj [(''title'', JStr ''A''), (''url'', JStr ''1'')], JObj [(''title'', JStr ''B'')]]"
    by simp
  from inst [THEN conjunct2, THEN conjunct2, rule_format, OF once, THEN conjunct1] twice
  show ?thesis by (rule conjI [rotated])
qed

lemma collect_articles_lists:
  "map search terms = map JArr results \<Longrightarrow>
   collect_articles search terms all_articles = Inr (all_articles @ concat results)"
proof (induction terms arbitrary: results all_articles)
  case Nil
  then show ?case by simp
next
  case (Cons t terms)
  from Cons.prems obtain l ls where split: "results = l # ls" by (cases results) auto
  with Cons.prems have "search t = JArr l" "map search terms = map JArr ls" by simp_all
  with Cons.IH [of ls "all_articles @ l"] split show ?case by simp
qed

text \<open>
  Claim C7. With a token set, when every search returns a list and every article is a
  dictionary whose title can be hashed, the tool returns the JSON object whose
  \<^verbatim>\<open>total_articles\<close> is the number of unique articles of the concatenated lists, whose
  \<^verbatim>\<open>articles\<close> are the first ten of them and whose \<^verbatim>\<open>search_location\<close> is the location
  given, or \<^verbatim>\<open>'General'\<close> when the location is \<^verbatim>\<open>None\<close> or empty.
\<close>

theorem research_tool_output:
  assumes "env_token = Some api_token" and "api_token \<noteq> []"
      and "map (\<lambda>term. perform_news_search term api_token ''api.thenewsapi.com'')
             (located_terms location) = map JArr results"
      and "\<forall>a \<in> set (concat results). \<exists>k. title_key a = Inr k"
  shows "\<exists>us. dedup_by_title (concat results) = Inr us
     \<and> site_impact_research_tool perform_news_search env_token location =
         Inr (Dumps (JObj
           [(''total_articles'', JInt (int (length us))),
            (''articles'', JArr (take 10 us)),
            (''search_location'',
               JStr (case location of
                       None \<Rightarrow> ''General''
                     | Some l \<Rightarrow> if l = [] then ''General'' else l))]))"
proof -
  from dedup_loop_total [OF assms(4), of "{}" "[]"]
  obtain us where us: "dedup_by_title (concat results) = Inr us"
    by (auto simp: dedup_by_title_def)
  have loc: "location_or_general location =
      (case location of None \<Rightarrow> ''General'' | Some l \<Rightarrow> if l = [] then ''General'' else l)"
    by (simp add: location_or_general_def split: option.splits)
  from collect_articles_lists [OF assms(3), of "[]"] us loc assms(1,2)
  show ?thesis by (simp add: site_impact_research_tool_def)
qed

text \<open>
  Eight searches of five articles each: 17 unique articles, ten of them returned.
\<close>

theorem research_tool_output_witness:
  "\<exists>us. length us = 17
    \<and> site_impact_research_tool example_search (Some ''token'') (Some ''California'') =
        Inr (Dumps (JObj
          [(''total_articles'', JInt 17),
           (''articles'', JArr (take 10 us)),
           (''search_location'', JStr ''California'')]))"
proof -
  let ?res = "map (\<lambda>term. [JObj [(''title'', JStr term)],
           JObj [(''title'', JStr ''Solar news''), (''source'', JStr ''api.thenewsapi.com'')],
           JObj [(''title'', JStr [])],
           JObj [(''title'', JStr (term @ '' again''))],
           JObj [(''source'', JStr ''api.thenewsapi.com'')]]) (located_terms (Some ''California''))"
  have h1: "Some ''token'' = Some ''token''" and h2: "''token'' \<noteq> []" by simp_all
  have h3: "map (\<lambda>term. example_search term ''token'' ''api.thenewsapi.com'')
             (located_terms (Some ''California'')) = map JArr ?res"
    by (simp add: example_search_def)
  have h4: "\<forall>a \<in> set (concat ?res). \<exists>k. title_key a = Inr k"
    by (auto simp: title_key_def article_title_def dict_get_def)
  have len: "map_sum id length (dedup_by_title (concat ?res)) = Inr 17"
    by code_simp
  from research_tool_output
         [of "Some ''token''" "''token''" example_search "Some ''California''" ?res,
          OF h1 h2 h3 h4]
  obtain us
    where us: "dedup_by_title (concat ?res) = Inr us"
      and out: "site_impact_research_tool example_search (Some ''token'') (Some ''California'') =
         Inr (Dumps (JObj
           [(''total_articles'', JInt (int (length us))),
            (''articles'', JArr (take 10 us)),
            (''search_location'', JStr ''California'')]))"
    by auto
  from len us have "length us = 17" by simp
  with out show ?thesis by auto
qed

section \<open>The claims about the permit form generator\<close>

lemma fold_update_keys:
  "\<forall>kv \<in> set its. fst kv \<in> fst ` set form \<Longrightarrow>
   map fst (fold (\<lambda>kv f. AList.update (fst kv) (snd kv) f) its form) = map fst form"
proof (induction its arbitrary: form)
  case Nil
  show ?case by simp
next
  case (Cons kv its)
  have keys: "map fst (AList.update (fst kv) (snd kv) form) = map fst form"
    using Cons.prems by (simp add: AList.update_keys)
  then have "fst ` set (AList.update (fst kv) (snd kv) form) = fst ` set form"
    by (metis list.set_map)
  with Cons.prems have "\<forall>x \<in> set its. fst x \<in> fst ` set (AList.update (fst kv) (snd kv) form)"
    by simp
  from Cons.IH [OF this] keys show ?case by simp
qed

lemma fold_update_map_of:
  "map_of (fold (\<lambda>kv f. AList.update (fst kv) (snd kv) f) its form)
     = map_of form ++ map_of (rev its)"
proof (induction its arbitrary: form)
  case Nil
  show ?case by simp
next
  case (Cons kv its)
  show ?case
    by (cases kv) (simp add: Cons AList.update_conv' fun_eq_iff map_add_def split: option.splits)
qed

lemma map_of_rev_distinct:
  "distinct (map fst its) \<Longrightarrow> map_of (rev its) = map_of its"
proof (induction its)
  case Nil
  show ?case by simp
next
  case (Cons kv its)
  then have "map_of its (fst kv) = None"
    by (simp add: map_of_eq_None_iff)
  with Cons show ?case
    by (cases kv) (auto simp: fun_eq_iff map_add_def split: option.splits)
qed

lemma map_of_filter_keys:
  "map_of (filter (\<lambda>kv. fst kv \<in> K) its) k = (if k \<in> K then map_of its k else None)"
  by (induction its) auto

lemma merge_details_dict:
  assumes "distinct (map fst details)"
  shows "\<exists>merged. merge_details form (JObj details) = Inr merged
     \<and> map fst merged = map fst form
     \<and> (\<forall>k. map_of merged k =
           (if k \<in> fst ` set form
            then (case map_of details k of Some v \<Rightarrow> Some v | None \<Rightarrow> map_of form k)
            else None))"
proof -
  let ?its = "filter (\<lambda>kv. fst kv \<in> fst ` set form) details"
  let ?merged = "fold (\<lambda>kv f. AList.update (fst kv) (snd kv) f) ?its form"
  have d: "distinct (map fst ?its)" using assms by (rule distinct_map_filter)
  have keys: "map fst ?merged = map fst form"
    by (rule fold_update_keys) simp
  have "map_of ?merged k =
           (if k \<in> fst ` set form
            then (case map_of details k of Some v \<Rightarrow> Some v | None \<Rightarrow> map_of form k)
            else None)" for k
    by (auto simp add: fold_update_map_of map_of_rev_distinct [OF d] map_of_filter_keys
          map_add_def map_of_eq_None_iff split: option.splits)
  with keys show ?thesis by (simp add: merge_details_def)
qed


lemma fill_permit_form_valid:
  assumes "map_of rules ''jurisdiction_name'' = Some jurisdiction_name"
      and "map_of rules ''permit_type'' = Some permit_type"
      and "map_of rules ''requirements'' = Some requirements"
      and "map_of rules ''fees'' = Some rule_fees"
      and "map_of rules ''processing_time'' = Some processing_time"
  shows "\<exists>filled. fill_permit_form address (JObj rules) = Inr filled
     \<and> map fst filled = map fst PERMIT_TEMPLATE
     \<and> (\<forall>k. map_of filled k =
          (if k = ''property_address'' then Some (JStr address)
           else if k = ''jurisdiction'' then Some jurisdiction_name
           else if k = ''permit_type'' then Some permit_type
           else if k = ''requirements_checklist'' then Some requirements
           else if k = ''fees'' then Some rule_fees
           else if k = ''processing_time'' then Some processing_time
           else if k = ''submission_date'' then Some (JStr ''2024-07-18'')
           else map_of PERMIT_TEMPLATE k))"
proof -
  let ?filled = "AList.update ''submission_date'' (JStr ''2024-07-18'')
           (AList.update ''processing_time'' processing_time
           (AList.update ''fees'' rule_fees
           (AList.update ''requirements_checklist'' requirements
           (AList.update ''permit_type'' permit_type
           (AList.update ''jurisdiction'' jurisdiction_name
           (AList.update ''property_address'' (JStr address) PERMIT_TEMPLATE))))))"
  have eq: "fill_permit_form address (JObj rules) = Inr ?filled"
    by (simp add: fill_permit_form_def raising_def assms)
  have keys: "map fst ?filled = map fst PERMIT_TEMPLATE"
    by (simp add: PERMIT_TEMPLATE_def)
  have vals: "map_of ?filled k =
          (if k = ''property_address'' then Some (JStr address)
           else if k = ''jurisdiction'' then Some jurisdiction_name
           else if k = ''permit_type'' then Some permit_type
           else if k = ''requirements_checklist'' then Some requirements
           else if k = ''fees'' then Some rule_fees
           else if k = ''processing_time'' then Some processing_time
           else if k = ''submission_date'' then Some (JStr ''2024-07-18'')
           else map_of PERMIT_TEMPLATE k)" for k
    by (simp add: AList.update_conv')
  from eq keys vals show ?thesis by blast
qed

text \<open>
  Claim C8. Let the jurisdiction text, its code fence stripped, parse to a dictionary whose
  \<^verbatim>\<open>jurisdiction_info\<close> is a dictionary with the six keys of a rule record, and let the
  system details be empty, or not parse, or parse to a dictionary. Then the tool returns the
  permit form with the contact and the four next steps. The form has the keys of the
  template, in the template's order, and no other key: a key of the details that the template
  does not have is dropped. A key of the template that the details have carries the details'
  value. Every other key carries the address, the rule record's jurisdiction name, permit
  type, requirements, fees and processing time, the submission date \<^verbatim>\<open>2024-07-18\<close>, or the
  template's default.
\<close>

theorem permit_form_merge:
  assumes "loads (strip_fence jurisdiction_data) = Inr (JObj info)"
      and "map_of info ''jurisdiction_info'' = Some (JObj rules)"
      and "map_of rules ''jurisdiction_name'' = Some jurisdiction_name"
      and "map_of rules ''permit_type'' = Some permit_type"
      and "map_of rules ''requirements'' = Some requirements"
      and "map_of rules ''fees'' = Some rule_fees"
      and "map_of rules ''processing_time'' = Some processing_time"
      and "map_of rules ''contact'' = Some contact"
      and "system_details = [] \<and> details = []
         \<or> system_details \<noteq> [] \<and> loads (strip_fence system_details) = Inl JSONDecodeError
             \<and> details = []
         \<or> system_details \<noteq> [] \<and> loads (strip_fence system_details) = Inr (JObj details)"
      and "distinct (map fst details)"
  shows "\<exists>permit_form.
       generate_permit_form_tool loads fmt address jurisdiction_data system_details =
         Inr (Dumps (JObj
           [(''permit_form'', JObj permit_form),
            (''jurisdiction_contact'', contact),
            (''next_steps'', JArr
               [JStr ''Complete all required documents'',
                JStr (''Pay permit fee of $'' @ fmt rule_fees),
                JStr ''Submit application to jurisdiction'',
                JStr (''Wait '' @ fmt processing_time @ '' for approval'')])]))
     \<and> map fst permit_form = map fst PERMIT_TEMPLATE
     \<and> (\<forall>k. k \<notin> fst ` set PERMIT_TEMPLATE \<longrightarrow> map_of permit_form k = None)
     \<and> (\<forall>k v. k \<in> fst ` set PERMIT_TEMPLATE \<and> map_of details k = Some v
            \<longrightarrow> map_of permit_form k = Some v)
     \<and> (\<forall>k. k \<in> fst ` set PERMIT_TEMPLATE \<and> map_of details k = None
            \<longrightarrow> map_of permit_form k =
                  (if k = ''property_address'' then Some (JStr address)
                   else if k = ''jurisdiction'' then Some jurisdiction_name
                   else if k = ''permit_type'' then Some permit_type
                   else if k = ''requirements_checklist'' then Some requirements
                   else if k = ''fees'' then Some rule_fees
                   else if k = ''processing_time'' then Some processing_time
                   else if k = ''submission_date'' then Some (JStr ''2024-07-18'')
                   else map_of PERMIT_TEMPLATE k))"
proof -
  from fill_permit_form_valid [OF assms(3-7), of address] obtain filled
    where filled: "fill_permit_form address (JObj rules) = Inr filled"
      and fkeys: "map fst filled = map fst PERMIT_TEMPLATE"
      and fvals: "\<And>k. map_of filled k =
          (if k = ''property_address'' then Some (JStr address)
           else if k = ''jurisdiction'' then Some jurisdiction_name
           else if k = ''permit_type'' then Some permit_type
           else if k = ''requirements_checklist'' then Some requirements
           else if k = ''fees'' then Some rule_fees
           else if k = ''processing_time'' then Some processing_time
           else if k = ''submission_date'' then Some (JStr ''2024-07-18'')
           else map_of PERMIT_TEMPLATE k)"
    by blast
  from merge_details_dict [OF assms(10), of filled] obtain merged
    where merged: "merge_details filled (JObj details) = Inr merged"
      and mkeys: "map fst merged = map fst filled"
      and mvals: "\<And>k. map_of merged k =
           (if k \<in> fst ` set filled
            then (case map_of details k of Some v \<Rightarrow> Some v | None \<Rightarrow> map_of filled k)
            else None)"
    by blast
  have fset: "fst ` set filled = fst ` set PERMIT_TEMPLATE"
    using fkeys by (metis list.set_map)
  have empty: "merge_details filled (JObj []) = Inr filled"
    by (simp add: merge_details_def)
  have info: "truthy (JObj info)" "py_in ''jurisdiction_info'' (JObj info) = Inr True"
    "py_subscript (JObj info) ''jurisdiction_info'' = Inr (JObj rules)"
    using assms(2) map_of_Some_in_keys [OF assms(2)] by auto
  have rs: "py_subscript (JObj rules) ''contact'' = Inr contact"
    "py_subscript (JObj rules) ''fees'' = Inr rule_fees"
    "py_subscript (JObj rules) ''processing_time'' = Inr processing_time"
    by (simp_all add: assms(6-8))
  have step: "(if system_details \<noteq> []
         then raising (extract_json_from_text loads system_details) (merge_details filled)
         else Inr filled) = Inr merged"
    using assms(9) merged empty
    by (auto simp: extract_json_from_text_def raising_def)
  have out: "generate_permit_form_tool loads fmt address jurisdiction_data system_details =
         Inr (Dumps (JObj
           [(''permit_form'', JObj merged),
            (''jurisdiction_contact'', contact),
            (''next_steps'', JArr
               [JStr ''Complete all required documents'',
                JStr (''Pay permit fee of $'' @ fmt rule_fees),
                JStr ''Submit application to jurisdiction'',
                JStr (''Wait '' @ fmt processing_time @ '' for approval'')])]))"
    by (simp add: generate_permit_form_tool_def extract_json_from_text_def assms(1) raising_def
          info filled step rs del: truthy.simps py_in.simps py_subscript.simps)
  have dropped: "\<forall>k. k \<notin> fst ` set PERMIT_TEMPLATE \<longrightarrow> map_of merged k = None"
    by (simp add: mvals fset)
  have overwritten: "\<forall>k v. k \<in> fst ` set PERMIT_TEMPLATE \<and> map_of details k = Some v
            \<longrightarrow> map_of merged k = Some v"
    by (simp add: mvals fset)
  have kept: "\<forall>k. k \<in> fst ` set PERMIT_TEMPLATE \<and> map_of details k = None
            \<longrightarrow> map_of merged k =
                  (if k = ''property_address'' then Some (JStr address)
                   else if k = ''jurisdiction'' then Some jurisdiction_name
                   else if k = ''permit_type'' then Some permit_type
                   else if k = ''requirements_checklist'' then Some requirements
                   else if k = ''fees'' then Some rule_fees
                   else if k = ''processing_time'' then Some processing_time
                   else if k = ''submission_date'' then Some (JStr ''2024-07-18'')
                   else map_of PERMIT_TEMPLATE k)"
    using fvals by (simp add: mvals fset)
  from out mkeys fkeys dropped overwritten kept show ?thesis
    by (intro exI [of _ merged] conjI) simp_all
qed

text \<open>
  A fenced jurisdiction text and details with two keys of the template and the key
  \<^verbatim>\<open>color\<close>, which the template does not have.
\<close>

theorem permit_form_merge_witness:
  "\<exists>permit_form.
     generate_permit_form_tool example_loads example_fmt ''1 Main St''
         (''```json'' @ [CHR 0x0A] @ example_jurisdiction_text @ [CHR 0x0A] @ ''```'')
         example_details_text =
       Inr (Dumps (JObj
         [(''permit_form'', JObj permit_form),
          (''jurisdiction_contact'', JStr ''town.example''),
          (''next_steps'', JArr
             [JStr ''Complete all required documents'',
              JStr ''Pay permit fee of $100'',
              JStr ''Submit application to jurisdiction'',
              JStr ''Wait 1-2 weeks for approval''])]))
   \<and> map fst permit_form = map fst PERMIT_TEMPLATE
   \<and> map_of permit_form ''system_size_kw'' = Some (JStr ''7kW'')
   \<and> map_of permit_form ''panel_count'' = Some (JStr ''24'')
   \<and> map_of permit_form ''color'' = None
   \<and> map_of permit_form ''property_address'' = Some (JStr ''1 Main St'')
   \<and> map_of permit_form ''fees'' = Some (JInt 100)
   \<and> map_of permit_form ''submission_date'' = Some (JStr ''2024-07-18'')
   \<and> map_of permit_form ''status'' = Some (JStr ''Draft'')"
proof -
  let ?rules = "[(''jurisdiction_name'', JStr ''Town''),
           (''permit_type'', JStr ''Solar''),
           (''requirements'', JArr [JStr ''Plan'']),
           (''fees'', JInt 100),
           (''processing_time'', JStr ''1-2 weeks''),
           (''contact'', JStr ''town.example'')]"
  let ?details = "[(''system_size_kw'', JStr ''7kW''), (''panel_count'', JStr ''24''),
                   (''color'', JStr ''blue'')]"
  have h1: "example_loads
      (strip_fence (''```json'' @ [CHR 0x0A] @ example_jurisdiction_text @ [CHR 0x0A] @ ''```''))
      = Inr (JObj [(''jurisdiction_info'', JObj ?rules)])"
    by code_simp
  have h2: "map_of [(''jurisdiction_info'', JObj ?rules)] ''jurisdiction_info'' = Some (JObj ?rules)"
    by simp
  have h3: "map_of ?rules ''jurisdiction_name'' = Some (JStr ''Town'')"
    and h4: "map_of ?rules ''permit_type'' = Some (JStr ''Solar'')"
    and h5: "map_of ?rules ''requirements'' = Some (JArr [JStr ''Plan''])"
    and h6: "map_of ?rules ''fees'' = Some (JInt 100)"
    and h7: "map_of ?rules ''processing_time'' = Some (JStr ''1-2 weeks'')"
    and h8: "map_of ?rules ''contact'' = Some (JStr ''town.example'')"
    by simp_all
  have parsed: "example_details_text \<noteq> []
      \<and> example_loads (strip_fence example_details_text) = Inr (JObj ?details)"
    by code_simp
  then have h9: "example_details_text = [] \<and> ?details = []
         \<or> example_details_text \<noteq> []
             \<and> example_loads (strip_fence example_details_text) = Inl JSONDecodeError
             \<and> ?details = []
         \<or> example_details_text \<noteq> []
             \<and> example_loads (strip_fence example_details_text) = Inr (JObj ?details)"
    by blast
  have h10: "distinct (map fst ?details)" by simp
  have keys: "''system_size_kw'' \<in> fst ` set PERMIT_TEMPLATE"
    "''panel_count'' \<in> fst ` set PERMIT_TEMPLATE"
    "''color'' \<notin> fst ` set PERMIT_TEMPLATE"
    "''property_address'' \<in> fst ` set PERMIT_TEMPLATE"
    "''fees'' \<in> fst ` set PERMIT_TEMPLATE"
    "''submission_date'' \<in> fst ` set PERMIT_TEMPLATE"
    "''status'' \<in> fst ` set PERMIT_TEMPLATE"
    by (simp_all add: PERMIT_TEMPLATE_def)
  have status: "map_of PERMIT_TEMPLATE ''status'' = Some (JStr ''Draft'')"
    by (simp add: PERMIT_TEMPLATE_def)
  from permit_form_merge [OF h1 h2 h3 h4 h5 h6 h7 h8 h9 h10, of example_fmt "''1 Main St''"]
  obtain permit_form where
    out: "generate_permit_form_tool example_loads example_fmt ''1 Main St''
         (''```json'' @ [CHR 0x0A] @ example_jurisdiction_text @ [CHR 0x0A] @ ''```'')
         example_details_text =
         Inr (Dumps (JObj
           [(''permit_form'', JObj permit_form),
            (''jurisdiction_contact'', JStr ''town.example''),
            (''next_steps'', JArr
               [JStr ''Complete all required documents'',
                JStr (''Pay permit fee of $'' @ example_fmt (JInt 100)),
                JStr ''Submit application to jurisdiction'',
                JStr (''Wait '' @ example_fmt (JStr ''1-2 weeks'') @ '' for approval'')])]))"
    and ks: "map fst permit_form = map fst PERMIT_TEMPLATE"
    and dropped: "\<forall>k. k \<notin> fst ` set PERMIT_TEMPLATE \<longrightarrow> map_of permit_form k = None"
    and over: "\<forall>k v. k \<in> fst ` set PERMIT_TEMPLATE \<and> map_of ?details k = Some v
            \<longrightarrow> map_of permit_form k = Some v"
    and kept: "\<forall>k. k \<in> fst ` set PERMIT_TEMPLATE \<and> map_of ?details k = None
            \<longrightarrow> map_of permit_form k =
                  (if k = ''property_address'' then Some (JStr ''1 Main St'')
                   else if k = ''jurisdiction'' then Some (JStr ''Town'')
                   else if k = ''permit_type'' then Some (JStr ''Solar'')
                   else if k = ''requirements_checklist'' then Some (JArr [JStr ''Plan''])
                   else if k = ''fees'' then Some (JInt 100)
                   else if k = ''processing_time'' then Some (JStr ''1-2 weeks'')
                   else if k = ''submission_date'' then Some (JStr ''2024-07-18'')
                   else map_of PERMIT_TEMPLATE k)"
    by blast
  from over keys have a: "map_of permit_form ''system_size_kw'' = Some (JStr ''7kW'')"
    "map_of permit_form ''panel_count'' = Some (JStr ''24'')" by simp_all
  from dropped keys have b: "map_of permit_form ''color'' = None" by simp
  from kept [rule_format, of "''property_address''"] keys
  have c: "map_of permit_form ''property_address'' = Some (JStr ''1 Main St'')" by simp
  from kept [rule_format, of "''fees''"] keys
  have d: "map_of permit_form ''fees'' = Some (JInt 100)" by simp
  from kept [rule_format, of "''submission_date''"] keys
  have e: "map_of permit_form ''submission_date'' = Some (JStr ''2024-07-18'')" by simp
  from kept [rule_format, of "''status''"] keys status
  have f: "map_of permit_form ''status'' = Some (JStr ''Draft'')" by simp
  from out ks a b c d e f show ?thesis
    by (intro exI [of _ permit_form]) (simp add: example_fmt_def)
qed

text \<open>
  Claim C9. When the jurisdiction text, its code fence stripped, does not parse as JSON, or
  parses to a dictionary without the key \<^verbatim>\<open>jurisdiction_info\<close>, the tool returns the error
  message and raises nothing.
\<close>

theorem invalid_jurisdiction_data_message:
  assumes "loads (strip_fence jurisdiction_data) = Inl JSONDecodeError
         \<or> (\<exists>d. loads (strip_fence jurisdiction_data) = Inr (JObj d)
                \<and> ''jurisdiction_info'' \<notin> fst ` set d)"
  shows "generate_permit_form_tool loads fmt address jurisdiction_data system_details =
     Inr (Message
       ''Error: Invalid or unparseable jurisdiction data provided to generate_permit_form_tool.'')"
  using assms
  by (auto simp: generate_permit_form_tool_def extract_json_from_text_def raising_def
        invalid_jurisdiction_message_def)


text \<open>A text that is no JSON, and a fenced dictionary with an address alone.\<close>

theorem invalid_jurisdiction_data_witness:
  "generate_permit_form_tool example_loads example_fmt ''1 Main St'' ''not json'' [] =
     Inr (Message
       ''Error: Invalid or unparseable jurisdiction data provided to generate_permit_form_tool.'')
   \<and> generate_permit_form_tool example_loads example_fmt ''1 Main St''
       (''```'' @ example_other_text @ ''```'') example_details_text =
     Inr (Message
       ''Error: Invalid or unparseable jurisdiction data provided to generate_permit_form_tool.'')"
proof -
  have undecodable: "example_loads (strip_fence ''not json'') = Inl JSONDecodeError"
    by code_simp
  have lacking: "example_loads (strip_fence (''```'' @ example_other_text @ ''```''))
        = Inr (JObj [(''address'', JStr ''1 Main St'')])
      \<and> ''jurisdiction_info'' \<notin> fst ` set [(''address'', JStr ''1 Main St'')]"
    by code_simp
  from invalid_jurisdiction_data_message
         [of example_loads "''not json''" example_fmt "''1 Main St''" "[]"] undecodable
  have a: "generate_permit_form_tool example_loads example_fmt ''1 Main St'' ''not json'' [] =
     Inr (Message
       ''Error: Invalid or unparseable jurisdiction data provided to generate_permit_form_tool.'')"
    by blast
  from invalid_jurisdiction_data_message
         [of example_loads "''```'' @ example_other_text @ ''```''" example_fmt "''1 Main St''"
             example_details_text] lacking
  have b: "generate_permit_form_tool example_loads example_fmt ''1 Main St''
       (''```'' @ example_other_text @ ''```'') example_details_text =
     Inr (Message
       ''Error: Invalid or unparseable jurisdiction data provided to generate_permit_form_tool.'')"
    by blast
  from a b show ?thesis by (rule conjI)
qed

end
